theory Spec2Isabelle
  imports Main
begin

section \<open>Stored values and documents\<close>

text \<open>
  A persisted job is a flat document: field names mapped to values. The values that the
  scheduler writes are strings (\<open>jobId\<close>, the serialized errors), numbers (the two counters),
  booleans (\<open>isActive\<close>, \<open>isLocked\<close>), dates in milliseconds (\<open>dateToRunOn\<close>, \<open>createdAt\<close>,
  \<open>updatedAt\<close>), arrays (\<open>errorMessages\<close>) and the object id the store assigns as \<open>_id\<close>.
  Caller metadata (\<open>Record<string, any>\<close>) is spread into the same document.
\<close>

datatype val =
    VNull
  | VBool bool
  | VNum int
  | VStr string
  | VDate int
  | VOid nat
  | VArr "val list"

type_synonym doc = "string \<rightharpoonup> val"

subsection \<open>The expression operators used by the retry update\<close>

datatype mongo_error = MongoError nat

text \<open>The store's comparison order across types, then by value within a type.\<close>

fun bson_rank :: "val \<Rightarrow> nat" where
  "bson_rank VNull = 1"
| "bson_rank (VNum _) = 2"
| "bson_rank (VStr _) = 3"
| "bson_rank (VArr _) = 5"
| "bson_rank (VOid _) = 7"
| "bson_rank (VBool _) = 8"
| "bson_rank (VDate _) = 9"

datatype ordering = Lt | Eq | Gt

definition cmp_of :: "'a::linorder \<Rightarrow> 'a \<Rightarrow> ordering" where
  "cmp_of a b = (if a < b then Lt else if a = b then Eq else Gt)"

fun cmp_string :: "string \<Rightarrow> string \<Rightarrow> ordering" where
  "cmp_string [] [] = Eq"
| "cmp_string [] (d # ds) = Lt"
| "cmp_string (c # cs) [] = Gt"
| "cmp_string (c # cs) (d # ds) =
     (case cmp_of (of_char c :: nat) (of_char d) of Eq \<Rightarrow> cmp_string cs ds | r \<Rightarrow> r)"

fun bson_cmp :: "val \<Rightarrow> val \<Rightarrow> ordering"
  and bson_cmp_list :: "val list \<Rightarrow> val list \<Rightarrow> ordering" where
  "bson_cmp VNull VNull = Eq"
| "bson_cmp (VNum a) (VNum b) = cmp_of a b"
| "bson_cmp (VDate a) (VDate b) = cmp_of a b"
| "bson_cmp (VOid a) (VOid b) = cmp_of a b"
| "bson_cmp (VBool a) (VBool b) = cmp_of a b"
| "bson_cmp (VStr a) (VStr b) = cmp_string a b"
| "bson_cmp (VArr xs) (VArr ys) = bson_cmp_list xs ys"
| "bson_cmp a b = cmp_of (bson_rank a) (bson_rank b)"
| "bson_cmp_list [] [] = Eq"
| "bson_cmp_list [] (y # ys) = Lt"
| "bson_cmp_list (x # xs) [] = Gt"
| "bson_cmp_list (x # xs) (y # ys) =
     (case bson_cmp x y of Eq \<Rightarrow> bson_cmp_list xs ys | r \<Rightarrow> r)"

text \<open>\<open>$gte\<close>\<close>

definition mongo_gte :: "val \<Rightarrow> val \<Rightarrow> bool" where
  "mongo_gte a b = (bson_cmp a b \<noteq> Lt)"

text \<open>\<open>$ifNull\<close>: a missing field and a null field both take the replacement.\<close>

definition mongo_ifNull :: "val option \<Rightarrow> val \<Rightarrow> val" where
  "mongo_ifNull f dflt = (case f of None \<Rightarrow> dflt | Some VNull \<Rightarrow> dflt | Some v \<Rightarrow> v)"

text \<open>
  \<open>$add\<close>: numbers add; one date plus a number is a date; a null operand gives null;
  any other operand is rejected by the store.
\<close>

fun mongo_add :: "val \<Rightarrow> val \<Rightarrow> mongo_error + val" where
  "mongo_add (VNum a) (VNum b) = Inr (VNum (a + b))"
| "mongo_add (VDate a) (VNum b) = Inr (VDate (a + b))"
| "mongo_add (VNum a) (VDate b) = Inr (VDate (a + b))"
| "mongo_add (VDate a) (VDate b) = Inl (MongoError 16612)"
| "mongo_add VNull (VNum b) = Inr VNull"
| "mongo_add VNull (VDate b) = Inr VNull"
| "mongo_add VNull VNull = Inr VNull"
| "mongo_add (VNum a) VNull = Inr VNull"
| "mongo_add (VDate a) VNull = Inr VNull"
| "mongo_add a b = Inl (MongoError 16554)"

text \<open>A field path (\<open>"$retriedCount"\<close>) in an expression; a missing field compares as null.\<close>

definition field_path :: "doc \<Rightarrow> string \<Rightarrow> val" where
  "field_path d k = (case d k of None \<Rightarrow> VNull | Some v \<Rightarrow> v)"

section \<open>The jobs collection\<close>

text \<open>
  The collection is the list of its documents together with the counter from which the
  store draws object ids. \<open>initDB\<close> creates a unique index on \<open>jobId\<close>; a document without
  the field is indexed under null.
\<close>

record collection =
  docs :: "doc list"
  next_oid :: nat

definition index_key :: "doc \<Rightarrow> val" where
  "index_key d = field_path d ''jobId''"

definition unique_jobIds :: "collection \<Rightarrow> bool" where
  "unique_jobIds c = distinct (map index_key (docs c))"

text \<open>An equality filter \<open>{k: v, ...}\<close>: every listed field is present with that value.\<close>

definition matches :: "(string \<times> val) list \<Rightarrow> doc \<Rightarrow> bool" where
  "matches q d = list_all (\<lambda>(k, v). d k = Some v) q"

text \<open>
  \<open>insertOne\<close>: the store supplies \<open>_id\<close> when the document has none, and refuses a
  document whose \<open>_id\<close> or whose \<open>jobId\<close> index key is already taken (code 11000).
\<close>

definition insertOne :: "doc \<Rightarrow> collection \<Rightarrow> mongo_error + collection" where
  "insertOne d c =
     (let d' = (if d ''_id'' = None then d(''_id'' \<mapsto> VOid (next_oid c)) else d) in
      if list_ex (\<lambda>e. e ''_id'' = d' ''_id'') (docs c) then Inl (MongoError 11000)
      else if list_ex (\<lambda>e. index_key e = index_key d') (docs c) then Inl (MongoError 11000)
      else Inr (c\<lparr>docs := docs c @ [d'], next_oid := Suc (next_oid c)\<rparr>))"

text \<open>Replace the first element satisfying \<open>P\<close>; \<open>updateOne\<close> touches at most one document.\<close>

fun update_first :: "('a \<Rightarrow> bool) \<Rightarrow> ('a \<Rightarrow> 'a) \<Rightarrow> 'a list \<Rightarrow> 'a list" where
  "update_first P f [] = []"
| "update_first P f (x # xs) = (if P x then f x # xs else x # update_first P f xs)"

fun delete_first :: "('a \<Rightarrow> bool) \<Rightarrow> 'a list \<Rightarrow> 'a list" where
  "delete_first P [] = []"
| "delete_first P (x # xs) = (if P x then xs else x # delete_first P xs)"

definition deleteOne :: "(string \<times> val) list \<Rightarrow> collection \<Rightarrow> collection" where
  "deleteOne q c = c\<lparr>docs := delete_first (matches q) (docs c)\<rparr>"

text \<open>\<open>$set\<close> with literal values.\<close>

fun apply_set :: "(string \<times> val) list \<Rightarrow> doc \<Rightarrow> doc" where
  "apply_set [] d = d"
| "apply_set ((k, v) # kvs) d = apply_set kvs (d(k \<mapsto> v))"

record update_result =
  matchedCount :: nat
  modifiedCount :: nat

text \<open>
  \<open>updateOne(filter, {$set: ...})\<close>: the first matching document is updated; it counts as
  modified only when some field really changes.
\<close>

definition updateOne_set ::
  "(string \<times> val) list \<Rightarrow> (string \<times> val) list \<Rightarrow> collection \<Rightarrow> update_result \<times> collection" where
  "updateOne_set q kvs c =
     (case find (matches q) (docs c) of
        None \<Rightarrow> (\<lparr>matchedCount = 0, modifiedCount = 0\<rparr>, c)
      | Some d \<Rightarrow>
          (\<lparr>matchedCount = 1,
            modifiedCount = (if list_ex (\<lambda>(k, v). d k \<noteq> Some v) kvs then 1 else 0)\<rparr>,
           c\<lparr>docs := update_first (matches q) (apply_set kvs) (docs c)\<rparr>))"

text \<open>
  \<open>updateOne(filter, [stage, ...])\<close>: the stages run on the first matching document as one
  update; when an expression is rejected nothing is written.
\<close>

definition updateOne_pipeline ::
  "(string \<times> val) list \<Rightarrow> (doc \<Rightarrow> mongo_error + doc) \<Rightarrow> collection \<Rightarrow> mongo_error + collection" where
  "updateOne_pipeline q f c =
     (case find (matches q) (docs c) of
        None \<Rightarrow> Inr c
      | Some d \<Rightarrow>
          (case f d of
             Inl e \<Rightarrow> Inl e
           | Inr d' \<Rightarrow> Inr (c\<lparr>docs := update_first (matches q) (\<lambda>_. d') (docs c)\<rparr>)))"

text \<open>
  \<open>updateOne(filter, {$setOnInsert: ..., $set: ...}, {upsert: true})\<close>. A field named by
  both operators is refused (code 40). On a match the \<open>$set\<close> fields are written, unless
  that would change \<open>_id\<close> (code 66) or collide in the unique index. Without a match a
  document built from the filter and both operators is inserted.
\<close>

definition updateOne_upsert ::
  "(string \<times> val) list \<Rightarrow> (string \<times> val) list \<Rightarrow> doc \<Rightarrow> collection \<Rightarrow> mongo_error + collection" where
  "updateOne_upsert q on_insert set_fields c =
     (if list_ex (\<lambda>(k, v). set_fields k \<noteq> None) on_insert then Inl (MongoError 40)
      else case find (matches q) (docs c) of
             Some d \<Rightarrow>
               (let d' = d ++ set_fields in
                if d' ''_id'' \<noteq> d ''_id'' then Inl (MongoError 66)
                else if index_key d' \<noteq> index_key d
                        \<and> list_ex (\<lambda>e. index_key e = index_key d') (docs c)
                then Inl (MongoError 11000)
                else Inr (c\<lparr>docs := update_first (matches q) (\<lambda>_. d') (docs c)\<rparr>))
           | None \<Rightarrow> insertOne (apply_set on_insert (map_of q ++ set_fields)) c)"

section \<open>The retry transition (\<open>Scheduler.updateRetryThresholdInDB\<close>)\<close>

text \<open>First \<open>$set\<close> stage: every right-hand side reads the document as it was.\<close>

definition retry_stage1 :: "string \<Rightarrow> int \<Rightarrow> doc \<Rightarrow> mongo_error + doc" where
  "retry_stage1 error now d =
     (case mongo_add (mongo_ifNull (d ''errorCount'') (VNum 0)) (VNum 1) of
        Inl e \<Rightarrow> Inl e
      | Inr ec \<Rightarrow>
          (case mongo_add (mongo_ifNull (d ''retriedCount'') (VNum (- 1))) (VNum 1) of
             Inl e \<Rightarrow> Inl e
           | Inr rc \<Rightarrow>
               Inr (d(''errorCount'' \<mapsto> ec,
                      ''retriedCount'' \<mapsto> rc,
                      ''isLocked'' \<mapsto> VBool False,
                      ''errorMessages'' \<mapsto>
                         (case d ''errorMessages'' of
                            Some (VArr xs) \<Rightarrow> VArr (xs @ [VStr error])
                          | _ \<Rightarrow> VArr [VStr error]),
                      ''updatedAt'' \<mapsto> VDate now))))"

text \<open>
  Second \<open>$set\<close> stage: reads the counter the first stage wrote; the else branch assigns
  \<open>isActive\<close> to itself.
\<close>

definition retry_stage2 :: "int \<Rightarrow> doc \<Rightarrow> doc" where
  "retry_stage2 retryCount d =
     (if mongo_gte (field_path d ''retriedCount'') (VNum retryCount)
      then d(''isActive'' \<mapsto> VBool False)
      else d)"

definition retry_pipeline :: "string \<Rightarrow> int \<Rightarrow> int \<Rightarrow> doc \<Rightarrow> mongo_error + doc" where
  "retry_pipeline error retryCount now d =
     (case retry_stage1 error now d of
        Inl e \<Rightarrow> Inl e
      | Inr d1 \<Rightarrow> Inr (retry_stage2 retryCount d1))"

section \<open>Timers and the \<open>Job\<close> class\<close>

text \<open>
  The process has a clock (milliseconds), the timers that are armed and have not fired,
  and the timer table \<open>scheduledJobs\<close> that every \<open>Job\<close> method receives. A table entry is
  a timer handle or \<open>undefined\<close>; an absent key reads as \<open>undefined\<close> too.

  \<open>Job.scheduleJob\<close> arms one of two closures: the one that calls \<open>scheduleJob\<close> again with
  the remaining time, and the one that calls the callback and then stores \<open>undefined\<close> under
  the job id.
\<close>

type_synonym handle = nat

datatype 'a timer_body = Rearm 'a int | Fire 'a

record 'a timer =
  t_handle :: handle
  t_due :: int
  t_job :: string
  t_body :: "'a timer_body"

record 'a runtime =
  now :: int
  next_handle :: handle
  pending :: "'a timer list"
  scheduledJobs :: "string \<rightharpoonup> handle option"

definition MAX_TIME :: int where
  "MAX_TIME = 0x7FFFFFFF"

text \<open>\<open>setTimeout\<close>: a delay outside \<open>1 .. 2^31 - 1\<close> is replaced by 1.\<close>

definition timeout_delay :: "int \<Rightarrow> int" where
  "timeout_delay d = (if 1 \<le> d \<and> d \<le> 2147483647 then d else 1)"

definition setTimeout :: "string \<Rightarrow> 'a timer_body \<Rightarrow> int \<Rightarrow> 'a runtime \<Rightarrow> handle \<times> 'a runtime" where
  "setTimeout j b d r =
     (next_handle r,
      r\<lparr>next_handle := Suc (next_handle r),
        pending := pending r @
          [\<lparr>t_handle = next_handle r, t_due = now r + timeout_delay d, t_job = j, t_body = b\<rparr>]\<rparr>)"

definition clearTimeout :: "handle option \<Rightarrow> 'a runtime \<Rightarrow> 'a runtime" where
  "clearTimeout h r =
     (case h of
        None \<Rightarrow> r
      | Some i \<Rightarrow> r\<lparr>pending := filter (\<lambda>t. t_handle t \<noteq> i) (pending r)\<rparr>)"

text \<open>\<open>scheduledJobs[jobId]\<close>\<close>

definition getTimeoutId :: "'a runtime \<Rightarrow> string \<Rightarrow> handle option" where
  "getTimeoutId r j = (case scheduledJobs r j of None \<Rightarrow> None | Some v \<Rightarrow> v)"

definition Job_cancelJob :: "string \<Rightarrow> 'a runtime \<Rightarrow> 'a runtime" where
  "Job_cancelJob j r = clearTimeout (getTimeoutId r j) r"

definition Job_scheduleJob :: "'a \<Rightarrow> int \<Rightarrow> string \<Rightarrow> 'a runtime \<Rightarrow> 'a runtime" where
  "Job_scheduleJob callback timeRemaining j r =
     (if timeRemaining > MAX_TIME then
        (case setTimeout j (Rearm callback (timeRemaining - MAX_TIME)) MAX_TIME r of
           (i, r') \<Rightarrow> r'\<lparr>scheduledJobs := (scheduledJobs r')(j \<mapsto> Some i)\<rparr>)
      else
        (case setTimeout j (Fire callback) timeRemaining r of
           (i, r') \<Rightarrow> r'\<lparr>scheduledJobs := (scheduledJobs r')(j \<mapsto> Some i)\<rparr>))"

subsection \<open>The event loop\<close>

text \<open>The armed timer that is due first; among equal due times the one armed first.\<close>

fun earliest :: "'a timer \<Rightarrow> 'a timer list \<Rightarrow> 'a timer" where
  "earliest t [] = t"
| "earliest t (u # us) = earliest (if t_due u < t_due t then u else t) us"

definition pop_next :: "'a runtime \<Rightarrow> ('a timer \<times> 'a runtime) option" where
  "pop_next r =
     (case pending r of
        [] \<Rightarrow> None
      | t # ts \<Rightarrow>
          (let e = earliest t ts in
           Some (e, r\<lparr>now := max (now r) (t_due e),
                     pending := filter (\<lambda>u. t_handle u \<noteq> t_handle e) (pending r)\<rparr>)))"

text \<open>
  What the closure of a fired timer does to the timers and the table. The second closure
  hands its callback to the caller of this function, to be run.
\<close>

definition job_fire :: "'a timer \<Rightarrow> 'a runtime \<Rightarrow> 'a option \<times> 'a runtime" where
  "job_fire t r =
     (case t_body t of
        Rearm callback timeRemaining \<Rightarrow> (None, Job_scheduleJob callback timeRemaining (t_job t) r)
      | Fire callback \<Rightarrow> (Some callback, r\<lparr>scheduledJobs := (scheduledJobs r)(t_job t \<mapsto> None)\<rparr>))"

text \<open>
  The loop for opaque actions: a fired action is recorded with the time at which it ran
  and the job id of the timer that ran it.
\<close>

record 'a trace =
  tr_rt :: "'a runtime"
  tr_fired :: "(int \<times> string \<times> 'a) list"

definition tick :: "'a trace \<Rightarrow> 'a trace" where
  "tick w =
     (case pop_next (tr_rt w) of
        None \<Rightarrow> w
      | Some (t, r) \<Rightarrow>
          (case job_fire t r of
             (None, r') \<Rightarrow> w\<lparr>tr_rt := r'\<rparr>
           | (Some a, r') \<Rightarrow> w\<lparr>tr_rt := r', tr_fired := tr_fired w @ [(now r', t_job t, a)]\<rparr>))"

fun ticks :: "nat \<Rightarrow> 'a trace \<Rightarrow> 'a trace" where
  "ticks 0 w = w"
| "ticks (Suc n) w = ticks n (tick w)"

section \<open>The \<open>Scheduler\<close> class\<close>

text \<open>
  A user callback receives one object and either completes or throws (or rejects). What it
  throws is \<open>undefined\<close> or \<open>null\<close>, or else a value whose \<open>message\<close>, \<open>stack\<close> and \<open>code\<close> the
  catch block can read; such a value is represented by the text that \<open>JSON.stringify\<close>
  gives for \<open>{message, stack, code}\<close>.
\<close>

datatype thrown = Nullish | ErrorInfo string

datatype outcome = Fulfilled | Rejected thrown

type_synonym callback = "doc \<Rightarrow> outcome"

text \<open>
  The two closures built by \<open>prepareCallback\<close> and \<open>prepareCallbackWithlock\<close>, with what
  they capture: job id, due date, user callback, metadata.
\<close>

datatype wrapped =
    PrepareCallback string int callback doc
  | PrepareCallbackWithlock string int callback doc

record options =
  retryWindowInSeconds :: int
  retryCount :: int
  useLock :: bool

record partial_options =
  p_retryWindowInSeconds :: "int option"
  p_retryCount :: "int option"
  p_useLock :: "bool option"

datatype error =
    SchedulerNotInitialised
  | CallbackNotFunction
  | JobIdMustBeUnique
  | MongoUriNotProvided
  | TypeError
  | RecordOutsideTypes
  | Store mongo_error
  | Rethrown error

text \<open>
  \<open>Scheduler.retriedCount\<close> is a plain object, created as \<open>{}\<close>. Its own properties hold
  numbers, \<open>NaN\<close> among them. A name that is not an own property is looked up in
  \<open>Object.prototype\<close>: its method names read as functions, \<open>__proto__\<close> reads as the prototype
  object and cannot be assigned a number, every other name reads as \<open>undefined\<close>.
\<close>

datatype jsnum = Num int | NaN

datatype property = Undefined | Number jsnum | Inherited

definition prototype_methods :: "string list" where
  "prototype_methods =
     [''constructor'', ''hasOwnProperty'', ''isPrototypeOf'', ''propertyIsEnumerable'',
      ''toLocaleString'', ''toString'', ''valueOf'', ''__defineGetter__'', ''__defineSetter__'',
      ''__lookupGetter__'', ''__lookupSetter__'']"

text \<open>
  The static fields of \<open>Scheduler\<close>, with the process around them: its timers and clock, the
  source of \<open>crypto.randomUUID()\<close> values, and the record of every user-callback invocation
  (time and argument). \<open>jobsCollection\<close> is \<open>None\<close> until \<open>initDB\<close> assigns it; \<open>retriedCount\<close>
  holds the own properties of that object.
\<close>

record sched =
  initialized :: bool
  jobsCollection :: "collection option"
  opts :: options
  retriedCount :: "string \<rightharpoonup> jsnum"
  rt :: "wrapped runtime"
  uuid_pool :: "nat \<Rightarrow> string"
  uuid_next :: nat
  calls :: "(int \<times> doc) list"

type_synonym 'a res = "(error + 'a) \<times> sched"

definition default_options :: options where
  "default_options = \<lparr>retryWindowInSeconds = 3600, retryCount = 3, useLock = False\<rparr>"

text \<open>A process that has just started, at clock \<open>t0\<close>, with \<open>pool\<close> as its UUID source.\<close>

definition Scheduler_start :: "int \<Rightarrow> (nat \<Rightarrow> string) \<Rightarrow> sched" where
  "Scheduler_start t0 pool =
     \<lparr>initialized = False,
      jobsCollection = None,
      opts = default_options,
      retriedCount = Map.empty,
      rt = \<lparr>now = t0, next_handle = 0, pending = [], scheduledJobs = Map.empty\<rparr>,
      uuid_pool = pool,
      uuid_next = 0,
      calls = []\<rparr>"

subsection \<open>\<open>init\<close>\<close>

text \<open>
  The configuration either carries a database handle or an address; in both cases it
  resolves to the jobs collection named by it, which is what the model is given.
\<close>

datatype config = MongoOptions collection | DatabaseOptions string collection

definition initDB :: "config \<Rightarrow> sched \<Rightarrow> unit res" where
  "initDB cfg s =
     (case cfg of
        DatabaseOptions address c \<Rightarrow>
          (if address = [] then (Inl MongoUriNotProvided, s)
           else if unique_jobIds c then (Inr (), s\<lparr>jobsCollection := Some c\<rparr>)
           else (Inl (Store (MongoError 11000)), s\<lparr>jobsCollection := Some c\<rparr>))
      | MongoOptions c \<Rightarrow>
          (if unique_jobIds c then (Inr (), s\<lparr>jobsCollection := Some c\<rparr>)
           else (Inl (Store (MongoError 11000)), s\<lparr>jobsCollection := Some c\<rparr>)))"

definition merge_options :: "options \<Rightarrow> partial_options \<Rightarrow> options" where
  "merge_options old p =
     \<lparr>retryWindowInSeconds =
        (case p_retryWindowInSeconds p of None \<Rightarrow> retryWindowInSeconds old | Some w \<Rightarrow> w),
      retryCount = (case p_retryCount p of None \<Rightarrow> retryCount old | Some n \<Rightarrow> n),
      useLock = (case p_useLock p of Some True \<Rightarrow> True | _ \<Rightarrow> useLock old)\<rparr>"

definition init :: "config \<Rightarrow> partial_options \<Rightarrow> sched \<Rightarrow> unit res" where
  "init cfg p s =
     (case initDB cfg s of
        (Inl e, s') \<Rightarrow> (Inl e, s')
      | (Inr u, s') \<Rightarrow> (Inr (), s'\<lparr>opts := merge_options (opts s') p, initialized := True\<rparr>))"

subsection \<open>Store access\<close>


text \<open>The record written by \<open>storeJobInDB\<close>: the metadata first, the job's own fields over it.\<close>

definition job_record :: "string \<Rightarrow> int \<Rightarrow> doc \<Rightarrow> int \<Rightarrow> doc" where
  "job_record jobId dateToRunOn metadata created =
     metadata ++
       [''jobId'' \<mapsto> VStr jobId,
        ''dateToRunOn'' \<mapsto> VDate dateToRunOn,
        ''isLocked'' \<mapsto> VBool False,
        ''isActive'' \<mapsto> VBool True,
        ''createdAt'' \<mapsto> VDate created]"

definition storeJobInDB :: "string \<Rightarrow> int \<Rightarrow> doc \<Rightarrow> sched \<Rightarrow> unit res" where
  "storeJobInDB jobId dateToRunOn metadata s =
     (case jobsCollection s of
        None \<Rightarrow> (Inl (Rethrown TypeError), s)
      | Some c \<Rightarrow>
          (case insertOne (job_record jobId dateToRunOn metadata (now (rt s))) c of
             Inl (MongoError code) \<Rightarrow>
               (if code = 11000 then (Inl JobIdMustBeUnique, s)
                else (Inl (Rethrown (Store (MongoError code))), s))
           | Inr c' \<Rightarrow> (Inr (), s\<lparr>jobsCollection := Some c'\<rparr>)))"

definition deleteJobFromDB :: "string \<Rightarrow> sched \<Rightarrow> unit res" where
  "deleteJobFromDB jobId s =
     (case jobsCollection s of
        None \<Rightarrow> (Inl TypeError, s)
      | Some c \<Rightarrow> (Inr (), s\<lparr>jobsCollection := Some (deleteOne [(''jobId'', VStr jobId)] c)\<rparr>))"

text \<open>\<open>acquireLock\<close>: the result is \<open>matchedCount && modifiedCount\<close>, read as a truth value.\<close>

definition lock_query :: "string \<Rightarrow> int \<Rightarrow> (string \<times> val) list" where
  "lock_query jobId dateToRunOn =
     [(''jobId'', VStr jobId), (''isActive'', VBool True), (''dateToRunOn'', VDate dateToRunOn)]"

definition acquireLock :: "string \<Rightarrow> int \<Rightarrow> sched \<Rightarrow> bool res" where
  "acquireLock jobId dateToRunOn s =
     (case jobsCollection s of
        None \<Rightarrow> (Inl TypeError, s)
      | Some c \<Rightarrow>
          (case updateOne_set (lock_query jobId dateToRunOn) [(''isLocked'', VBool True)] c of
             (result, c') \<Rightarrow>
               (Inr (matchedCount result \<noteq> 0 \<and> modifiedCount result \<noteq> 0),
                s\<lparr>jobsCollection := Some c'\<rparr>)))"

definition updateRetryThresholdInDB :: "string \<Rightarrow> string \<Rightarrow> sched \<Rightarrow> unit res" where
  "updateRetryThresholdInDB jobId error s =
     (case jobsCollection s of
        None \<Rightarrow> (Inl TypeError, s)
      | Some c \<Rightarrow>
          (case updateOne_pipeline [(''jobId'', VStr jobId)]
                  (retry_pipeline error (retryCount (opts s)) (now (rt s))) c of
             Inl e \<Rightarrow> (Inl (Store e), s)
           | Inr c' \<Rightarrow> (Inr (), s\<lparr>jobsCollection := Some c'\<rparr>)))"

subsection \<open>Jobs in memory\<close>

text \<open>\<open>new Job(jobId)\<close>: a missing or empty id is replaced by a fresh UUID.\<close>

definition Job_new :: "string option \<Rightarrow> sched \<Rightarrow> string \<times> sched" where
  "Job_new jobId s =
     (case jobId of
        None \<Rightarrow> (uuid_pool s (uuid_next s), s\<lparr>uuid_next := Suc (uuid_next s)\<rparr>)
      | Some j \<Rightarrow>
          (if j = [] then (uuid_pool s (uuid_next s), s\<lparr>uuid_next := Suc (uuid_next s)\<rparr>)
           else (j, s)))"

definition wrapCallback :: "string \<Rightarrow> int \<Rightarrow> callback \<Rightarrow> doc \<Rightarrow> sched \<Rightarrow> wrapped" where
  "wrapCallback jobId dateToRunOn callback metadata s =
     (if useLock (opts s) then PrepareCallbackWithlock jobId dateToRunOn callback metadata
      else PrepareCallback jobId dateToRunOn callback metadata)"

definition cancelJobFromMemory :: "string \<Rightarrow> sched \<Rightarrow> sched" where
  "cancelJobFromMemory jobId s =
     (case getTimeoutId (rt s) jobId of
        None \<Rightarrow> s
      | Some i \<Rightarrow>
          (let r = clearTimeout (Some i) (rt s) in
           s\<lparr>rt := r\<lparr>scheduledJobs := (scheduledJobs r)(jobId := None)\<rparr>\<rparr>))"

text \<open>\<open>this.retriedCount[jobId]\<close>, read and written.\<close>

definition read_count :: "sched \<Rightarrow> string \<Rightarrow> property" where
  "read_count s jobId =
     (if jobId = ''__proto__'' then Inherited
      else case retriedCount s jobId of
             Some n \<Rightarrow> Number n
           | None \<Rightarrow> (if jobId \<in> set prototype_methods then Inherited else Undefined))"

definition write_count :: "string \<Rightarrow> jsnum \<Rightarrow> sched \<Rightarrow> sched" where
  "write_count jobId n s =
     (if jobId = ''__proto__'' then s else s\<lparr>retriedCount := (retriedCount s)(jobId \<mapsto> n)\<rparr>)"

text \<open>Truthiness, conversion to a number, \<open>++\<close> and \<open>>\<close> on what the counter can hold.\<close>

fun truthy :: "property \<Rightarrow> bool" where
  "truthy Undefined = False"
| "truthy (Number NaN) = False"
| "truthy (Number (Num k)) = (k \<noteq> 0)"
| "truthy Inherited = True"

fun to_number :: "property \<Rightarrow> jsnum" where
  "to_number (Number n) = n"
| "to_number Undefined = NaN"
| "to_number Inherited = NaN"

fun increment :: "jsnum \<Rightarrow> jsnum" where
  "increment (Num k) = Num (k + 1)"
| "increment NaN = NaN"

fun exceeds :: "jsnum \<Rightarrow> int \<Rightarrow> bool" where
  "exceeds (Num k) n = (k > n)"
| "exceeds NaN n = False"

text \<open>
  \<open>checkIfRetryExceeded\<close>: a falsy counter is set to 0, then the counter is incremented and
  compared with \<open>>\<close>.
\<close>

definition checkIfRetryExceeded :: "string \<Rightarrow> sched \<Rightarrow> bool \<times> sched" where
  "checkIfRetryExceeded jobId s =
     (let s1 = (if \<not> truthy (read_count s jobId) then write_count jobId (Num 0) s else s);
          s2 = write_count jobId (increment (to_number (read_count s1 jobId))) s1
      in (exceeds (to_number (read_count s2 jobId)) (retryCount (opts s2)), s2))"

definition handleRetries :: "string \<Rightarrow> int \<Rightarrow> callback \<Rightarrow> string \<Rightarrow> doc \<Rightarrow> sched \<Rightarrow> unit res" where
  "handleRetries jobId dateToRunOn callback error metadata s =
     (case updateRetryThresholdInDB jobId error s of
        (Inl e, s1) \<Rightarrow> (Inl e, s1)
      | (Inr u, s1) \<Rightarrow>
          (case checkIfRetryExceeded jobId s1 of
             (retryExceeded, s2) \<Rightarrow>
               (if retryExceeded then (Inr (), s2)
                else
                  (case Job_new (Some jobId) s2 of
                     (j, s3) \<Rightarrow>
                       (Inr (),
                        s3\<lparr>rt := Job_scheduleJob
                                   (wrapCallback jobId dateToRunOn callback metadata s3)
                                   (retryWindowInSeconds (opts s3) * 1000) j (rt s3)\<rparr>)))))"

subsection \<open>Scheduling\<close>

definition scheduleJob ::
  "callback option \<Rightarrow> int \<Rightarrow> string option \<Rightarrow> doc \<Rightarrow> sched \<Rightarrow> string res" where
  "scheduleJob callback dateToRunOn jobId metadata s =
     (if \<not> initialized s then (Inl SchedulerNotInitialised, s)
      else case callback of
             None \<Rightarrow> (Inl CallbackNotFunction, s)
           | Some f \<Rightarrow>
               (case Job_new jobId s of
                  (j, s1) \<Rightarrow>
                    (case storeJobInDB j dateToRunOn metadata s1 of
                       (Inl e, s2) \<Rightarrow> (Inl e, s2)
                     | (Inr u, s2) \<Rightarrow>
                         (Inr j,
                          s2\<lparr>rt := Job_scheduleJob (wrapCallback j dateToRunOn f metadata s2)
                                     (dateToRunOn - now (rt s2)) j (rt s2)\<rparr>))))"

definition scheduleJobInMemory ::
  "callback option \<Rightarrow> int \<Rightarrow> string \<Rightarrow> doc \<Rightarrow> sched \<Rightarrow> string res" where
  "scheduleJobInMemory callback dateToRunOn jobId metadata s =
     (if \<not> initialized s then (Inl SchedulerNotInitialised, s)
      else case callback of
             None \<Rightarrow> (Inl CallbackNotFunction, s)
           | Some f \<Rightarrow>
               (case Job_new (Some jobId) s of
                  (j, s1) \<Rightarrow>
                    (Inr j,
                     s1\<lparr>rt := Job_scheduleJob (wrapCallback jobId dateToRunOn f metadata s1)
                                (dateToRunOn - now (rt s1)) j (rt s1)\<rparr>)))"



text \<open>
  \<open>updateJob\<close>: \<open>dateToRunOn\<close> is a \<open>Date\<close>, hence truthy, so the existing timer is always
  cleared first. There is no check of \<open>initialized\<close> in the method itself.
\<close>

definition updateJob :: "string \<Rightarrow> callback option \<Rightarrow> int \<Rightarrow> doc \<Rightarrow> sched \<Rightarrow> unit res" where
  "updateJob jobId callback dateToRunOn metadata s =
     (let r = clearTimeout (getTimeoutId (rt s) jobId) (rt s);
          s0 = s\<lparr>rt := r\<lparr>scheduledJobs := (scheduledJobs r)(jobId := None)\<rparr>\<rparr>
      in case scheduleJobInMemory callback dateToRunOn jobId metadata s0 of
           (Inl e, s1) \<Rightarrow> (Inl e, s1)
         | (Inr j, s1) \<Rightarrow>
             (case jobsCollection s1 of
                None \<Rightarrow> (Inl TypeError, s1)
              | Some c \<Rightarrow>
                  (case updateOne_upsert [(''jobId'', VStr jobId)]
                          [(''isLocked'', VBool False), (''isActive'', VBool True),
                           (''createdAt'', VDate (now (rt s1)))]
                          (metadata ++ [''dateToRunOn'' \<mapsto> VDate dateToRunOn,
                                        ''updatedAt'' \<mapsto> VDate (now (rt s1))]) c of
                     Inl e \<Rightarrow> (Inl (Store e), s1)
                   | Inr c' \<Rightarrow> (Inr (), s1\<lparr>jobsCollection := Some c'\<rparr>))))"

text \<open>\<open>cancelJob\<close> takes a job id or a \<open>Job\<close> instance (given here by the id it holds).\<close>

datatype job_ref = JobIdString string | JobInstance string

definition cancelJob :: "job_ref \<Rightarrow> sched \<Rightarrow> unit res" where
  "cancelJob ref s =
     (let r1 = (case ref of JobInstance j \<Rightarrow> Job_cancelJob j (rt s) | JobIdString j \<Rightarrow> rt s);
          r2 = (case ref of
                  JobIdString j \<Rightarrow>
                    (if scheduledJobs r1 j \<noteq> None then clearTimeout (getTimeoutId r1 j) r1
                     else r1)
                | JobInstance j \<Rightarrow> r1);
          jobIdToDelete = (case ref of JobInstance j \<Rightarrow> j | JobIdString j \<Rightarrow> j)
      in deleteJobFromDB jobIdToDelete
           (s\<lparr>rt := r2\<lparr>scheduledJobs := (scheduledJobs r2)(jobIdToDelete := None)\<rparr>\<rparr>))"

subsection \<open>The wrapped callback\<close>

text \<open>The object handed to the user callback: \<open>{ jobId, dateToRunOn, ...metadata }\<close>.\<close>

definition callback_arg :: "string \<Rightarrow> int \<Rightarrow> doc \<Rightarrow> doc" where
  "callback_arg jobId dateToRunOn metadata =
     [''jobId'' \<mapsto> VStr jobId, ''dateToRunOn'' \<mapsto> VDate dateToRunOn] ++ metadata"

definition invoke :: "callback \<Rightarrow> doc \<Rightarrow> sched \<Rightarrow> outcome \<times> sched" where
  "invoke callback a s = (callback a, s\<lparr>calls := calls s @ [(now (rt s), a)]\<rparr>)"

text \<open>\<open>this.retriedCount[jobId] && delete this.retriedCount[jobId]\<close>\<close>

definition forget_retries :: "string \<Rightarrow> sched \<Rightarrow> sched" where
  "forget_retries jobId s =
     (if truthy (read_count s jobId) then s\<lparr>retriedCount := (retriedCount s)(jobId := None)\<rparr>
      else s)"

text \<open>
  The \<open>catch\<close> block after it has built \<open>errorInfo\<close>, given the serialized error. Building
  \<open>errorInfo\<close> reads \<open>error.message\<close>: when the caught value is \<open>undefined\<close> or \<open>null\<close> that read
  throws a \<open>TypeError\<close>, which leaves the wrapped callback before anything else is done.
\<close>

definition on_catch :: "string \<Rightarrow> int \<Rightarrow> callback \<Rightarrow> string \<Rightarrow> doc \<Rightarrow> sched \<Rightarrow> unit res" where
  "on_catch jobId dateToRunOn callback errorInfo metadata s =
     handleRetries jobId dateToRunOn callback errorInfo metadata (cancelJobFromMemory jobId s)"

text \<open>The serialized error of a store call made while \<open>jobsCollection\<close> is undefined.\<close>

definition undefined_collection_error :: string where
  "undefined_collection_error = ''TypeError''"

fun run_wrapped :: "wrapped \<Rightarrow> sched \<Rightarrow> unit res" where
  "run_wrapped (PrepareCallback jobId dateToRunOn callback metadata) s =
     (case invoke callback (callback_arg jobId dateToRunOn metadata) s of
        (Rejected Nullish, s1) \<Rightarrow> (Inl TypeError, s1)
      | (Rejected (ErrorInfo errorInfo), s1) \<Rightarrow>
          on_catch jobId dateToRunOn callback errorInfo metadata s1
      | (Fulfilled, s1) \<Rightarrow>
          (case deleteJobFromDB jobId s1 of
             (Inl e, s2) \<Rightarrow>
               on_catch jobId dateToRunOn callback undefined_collection_error metadata s2
           | (Inr u, s2) \<Rightarrow> (Inr (), forget_retries jobId s2)))"
| "run_wrapped (PrepareCallbackWithlock jobId dateToRunOn callback metadata) s =
     (case acquireLock jobId dateToRunOn s of
        (Inl e, s0) \<Rightarrow>
          on_catch jobId dateToRunOn callback undefined_collection_error metadata s0
      | (Inr lockAcquired, s0) \<Rightarrow>
          (if lockAcquired then
             (case invoke callback (callback_arg jobId dateToRunOn metadata) s0 of
                (Rejected Nullish, s1) \<Rightarrow> (Inl TypeError, s1)
              | (Rejected (ErrorInfo errorInfo), s1) \<Rightarrow>
                  on_catch jobId dateToRunOn callback errorInfo metadata s1
              | (Fulfilled, s1) \<Rightarrow>
                  (case deleteJobFromDB jobId s1 of
                     (Inl e, s2) \<Rightarrow>
                       on_catch jobId dateToRunOn callback undefined_collection_error metadata s2
                   | (Inr u, s2) \<Rightarrow> (Inr (), forget_retries jobId s2)))
           else (Inr (), cancelJobFromMemory jobId s0)))"

subsection \<open>The event loop of the process\<close>

text \<open>
  One step fires the timer that is due next and runs what it started to completion. The
  wrapped callback is asynchronous: whatever it does to the table or the timers happens
  after the timer's closure has returned, that is, after the closure has stored
  \<open>undefined\<close> under the job id. An error that leaves the wrapped callback is an unhandled
  rejection; the loop stops there and reports it.
\<close>

definition fire_next :: "sched \<Rightarrow> (unit res) option" where
  "fire_next s =
     (case pop_next (rt s) of
        None \<Rightarrow> None
      | Some (t, r) \<Rightarrow>
          (case job_fire t r of
             (None, r') \<Rightarrow> Some (Inr (), s\<lparr>rt := r'\<rparr>)
           | (Some w, r') \<Rightarrow> Some (run_wrapped w (s\<lparr>rt := r'\<rparr>))))"

fun run :: "nat \<Rightarrow> sched \<Rightarrow> unit res" where
  "run 0 s = (Inr (), s)"
| "run (Suc n) s =
     (case fire_next s of
        None \<Rightarrow> (Inr (), s)
      | Some (Inl e, s') \<Rightarrow> (Inl e, s')
      | Some (Inr u, s') \<Rightarrow> run n s')"

section \<open>Notions used in the statements\<close>

subsection \<open>Counters and messages of a record\<close>

text \<open>
  The number a counter field stands for in the retry update: a missing or null field
  counts as the given default, a number as itself; any other value is not a counter.
\<close>

definition counter_value :: "int \<Rightarrow> val option \<Rightarrow> int option" where
  "counter_value dflt f =
     (case f of
        None \<Rightarrow> Some dflt
      | Some VNull \<Rightarrow> Some dflt
      | Some (VNum n) \<Rightarrow> Some n
      | _ \<Rightarrow> None)"

text \<open>The messages already recorded: the elements of \<open>errorMessages\<close> when it is an array.\<close>

definition messages_of :: "val option \<Rightarrow> val list" where
  "messages_of f = (case f of Some (VArr xs) \<Rightarrow> xs | _ \<Rightarrow> [])"

text \<open>The fields the retry update may write.\<close>

definition retry_fields :: "string set" where
  "retry_fields =
     {''errorCount'', ''retriedCount'', ''isLocked'', ''errorMessages'', ''updatedAt'', ''isActive''}"

subsection \<open>Timers\<close>


definition armed_timer :: "'a \<Rightarrow> int \<Rightarrow> string \<Rightarrow> 'a runtime \<Rightarrow> 'a timer" where
  "armed_timer a d j r =
     \<lparr>t_handle = next_handle r,
      t_due = now r + (if d > MAX_TIME then MAX_TIME else timeout_delay d),
      t_job = j,
      t_body = (if d > MAX_TIME then Rearm a (d - MAX_TIME) else Fire a)\<rparr>"

text \<open>The number of bounded timers in the chain for a delay.\<close>

definition segments :: "int \<Rightarrow> nat" where
  "segments d = (if d \<le> MAX_TIME then 1 else Suc (nat ((d - 1) div MAX_TIME)))"

text \<open>
  One turn of the event loop on the timers alone: the timer due next is taken out and its
  closure run. \<open>rearmed\<close> is the state in which the first closure of a chain runs,
  \<open>fired_runtime\<close> the state in which the callback of a chain for delay \<open>d\<close> is run.
\<close>

definition advance :: "'a runtime \<Rightarrow> ('a option \<times> 'a runtime) option" where
  "advance r = (case pop_next r of None \<Rightarrow> None | Some (t, r1) \<Rightarrow> Some (job_fire t r1))"

definition rearmed :: "string \<Rightarrow> 'a runtime \<Rightarrow> 'a runtime" where
  "rearmed j r =
     r\<lparr>now := now r + MAX_TIME,
       next_handle := Suc (next_handle r),
       scheduledJobs := (scheduledJobs r)(j \<mapsto> Some (next_handle r))\<rparr>"

definition fired_runtime :: "int \<Rightarrow> string \<Rightarrow> 'a runtime \<Rightarrow> 'a runtime" where
  "fired_runtime d j r =
     r\<lparr>now := now r + max 1 d,
       next_handle := next_handle r + segments d,
       scheduledJobs := (scheduledJobs r)(j \<mapsto> None)\<rparr>"

subsection \<open>A running example\<close>

text \<open>A user callback that always completes.\<close>

definition always_ok :: callback where
  "always_ok a = Fulfilled"

text \<open>
  The job \<open>job-1\<close>, due at 5000, with metadata \<open>{op: "x"}\<close>: its metadata, its record as
  stored at clock 0, and the collection that holds just this record.
\<close>

definition ex_metadata :: doc where
  "ex_metadata = [''op'' \<mapsto> VStr ''x'']"

definition ex_record :: doc where
  "ex_record = (job_record ''job-1'' 5000 [''op'' \<mapsto> VStr ''x''] 0)(''_id'' \<mapsto> VOid 0)"

definition ex_collection :: collection where
  "ex_collection = \<lparr>docs = [ex_record], next_oid = 1\<rparr>"

text \<open>
  Processes started at clock 0 with the default options: initialised on the empty
  collection; initialised on the collection with \<open>job-1\<close>, as after a restart; and with
  \<open>init\<close> still under way, where \<open>initDB\<close> has assigned the collection and \<open>initialized\<close>
  is not yet set.
\<close>

definition ex_empty :: sched where
  "ex_empty =
     (Scheduler_start 0 (\<lambda>n. ''uuid''))
       \<lparr>initialized := True, jobsCollection := Some \<lparr>docs = [], next_oid = 0\<rparr>\<rparr>"

definition ex_sched :: sched where
  "ex_sched =
     (Scheduler_start 0 (\<lambda>n. ''uuid''))\<lparr>initialized := True, jobsCollection := Some ex_collection\<rparr>"

definition ex_connecting :: sched where
  "ex_connecting = (Scheduler_start 0 (\<lambda>n. ''uuid''))\<lparr>jobsCollection := Some ex_collection\<rparr>"



text \<open>The record of \<open>job-1\<close> after three failures.\<close>

definition ex_retried :: doc where
  "ex_retried = ex_record(''errorCount'' \<mapsto> VNum 3, ''retriedCount'' \<mapsto> VNum 2)"

text \<open>A metadata object that uses the names \<open>jobId\<close> and \<open>dateToRunOn\<close>.\<close>

definition ex_clash :: doc where
  "ex_clash = [''jobId'' \<mapsto> VStr ''other'', ''dateToRunOn'' \<mapsto> VDate 1]"



subsection \<open>Claiming a record\<close>



subsection \<open>A callback that throws no error object\<close>

text \<open>
  A user callback that throws \<open>undefined\<close> on every invocation, and the process right after
  scheduling \<open>job-1\<close> with it on the empty collection.
\<close>

definition always_throw_undefined :: callback where
  "always_throw_undefined a = Rejected Nullish"

definition ex_throwing :: sched where
  "ex_throwing =
     ex_sched\<lparr>rt := Job_scheduleJob (PrepareCallback ''job-1'' 5000 always_throw_undefined ex_metadata) 5000
                    ''job-1'' (rt ex_sched)\<rparr>"

text \<open>The process after \<open>n\<close> failures of job \<open>j\<close> have been counted.\<close>

definition counted :: "nat \<Rightarrow> string \<Rightarrow> sched \<Rightarrow> sched" where
  "counted n j s = ((\<lambda>s. snd (checkIfRetryExceeded j s)) ^^ n) s"

subsection \<open>The timers of one job among others\<close>





definition popped :: "'a timer \<Rightarrow> 'a runtime \<Rightarrow> 'a runtime" where
  "popped e r =
     r\<lparr>now := max (now r) (t_due e), pending := filter (\<lambda>u. t_handle u \<noteq> t_handle e) (pending r)\<rparr>"

text \<open>
  \<open>setTimeout\<close> hands out each handle once: the handles of the armed timers are distinct
  and below the next one to be handed out.
\<close>

definition handles_ok :: "'a runtime \<Rightarrow> bool" where
  "handles_ok r \<longleftrightarrow>
     distinct (map t_handle (pending r)) \<and> list_all (\<lambda>u. t_handle u < next_handle r) (pending r)"









section \<open>Properties\<close>

subsection \<open>Lists and the collection\<close>



lemma update_first_none: "find P xs = None \<Longrightarrow> update_first P f xs = xs"
  by (induction xs) (auto split: if_splits)

lemma delete_first_none: "find P xs = None \<Longrightarrow> delete_first P xs = xs"
  by (induction xs) (auto split: if_splits)

lemma find_delete_first_unique:
  "distinct (map key xs) \<Longrightarrow> (\<And>x. P x \<Longrightarrow> key x = k) \<Longrightarrow> find P (delete_first P xs) = None"
proof (induction xs)
  case Nil
  then show ?case by simp
next
  case (Cons a xs)
  show ?case
  proof (cases "P a")
    case True
    have "\<not> P y" if "y \<in> set xs" for y
    proof
      assume "P y"
      then have "key y = key a" using Cons.prems(2) True by simp
      then have "key a \<in> key ` set xs" using that by (metis imageI)
      then show False using Cons.prems(1) by simp
    qed
    then have "find P xs = None" by (simp add: find_None_iff)
    with True show ?thesis by simp
  next
    case False
    then show ?thesis using Cons by simp
  qed
qed

lemma matches_jobId_key: "matches [(''jobId'', VStr j)] d \<Longrightarrow> index_key d = VStr j"
  by (simp add: matches_def index_key_def field_path_def)

lemma deleteOne_twice:
  "unique_jobIds c \<Longrightarrow>
   deleteOne [(''jobId'', VStr j)] (deleteOne [(''jobId'', VStr j)] c) = deleteOne [(''jobId'', VStr j)] c"
  unfolding deleteOne_def unique_jobIds_def
  by (simp add: delete_first_none find_delete_first_unique[where key = index_key and k = "VStr j"] matches_jobId_key)

lemma apply_set_lock: "apply_set [(''isLocked'', VBool True)] = (\<lambda>d. d(''isLocked'' \<mapsto> VBool True))"
  by (rule ext) simp




lemma acquireLock_counts:
  assumes "jobsCollection s = Some c"
  shows "fst (acquireLock j t s) =
     Inr (matchedCount (fst (updateOne_set (lock_query j t) [(''isLocked'', VBool True)] c)) = 1
        \<and> modifiedCount (fst (updateOne_set (lock_query j t) [(''isLocked'', VBool True)] c)) = 1)"
  using assms by (auto simp: acquireLock_def updateOne_set_def split: option.splits prod.splits)

lemma acquireLock_success:
  assumes "jobsCollection s = Some c"
    and "find (matches (lock_query j t)) (docs c) = Some d"
    and "d ''isLocked'' \<noteq> Some (VBool True)"
  shows "acquireLock j t s =
     (Inr True, s\<lparr>jobsCollection :=
        Some (c\<lparr>docs := update_first (matches (lock_query j t)) (\<lambda>d. d(''isLocked'' \<mapsto> VBool True)) (docs c)\<rparr>)\<rparr>)"
  using assms by (auto simp: acquireLock_def updateOne_set_def apply_set_lock split: option.splits prod.splits)



subsection \<open>The retry update\<close>

lemma ifNull_counter:
  "counter_value dflt f = Some n \<Longrightarrow> mongo_ifNull f (VNum dflt) = VNum n"
  by (auto simp: counter_value_def mongo_ifNull_def split: option.splits val.splits)

lemma retry_stage1_counters:
  assumes "counter_value 0 (d ''errorCount'') = Some e"
    and "counter_value (- 1) (d ''retriedCount'') = Some r"
  shows "retry_stage1 err t d =
     Inr (d(''errorCount'' \<mapsto> VNum (e + 1),
            ''retriedCount'' \<mapsto> VNum (r + 1),
            ''isLocked'' \<mapsto> VBool False,
            ''errorMessages'' \<mapsto> VArr (messages_of (d ''errorMessages'') @ [VStr err]),
            ''updatedAt'' \<mapsto> VDate t))"
  using assms
  by (auto simp: retry_stage1_def ifNull_counter messages_of_def split: option.splits val.splits)

lemma retry_pipeline_counters:
  assumes "counter_value 0 (d ''errorCount'') = Some e"
    and "counter_value (- 1) (d ''retriedCount'') = Some r"
  shows "retry_pipeline err R t d =
     Inr ((d(''errorCount'' \<mapsto> VNum (e + 1),
            ''retriedCount'' \<mapsto> VNum (r + 1),
            ''isLocked'' \<mapsto> VBool False,
            ''errorMessages'' \<mapsto> VArr (messages_of (d ''errorMessages'') @ [VStr err]),
            ''updatedAt'' \<mapsto> VDate t))
          (''isActive'' := (if R \<le> r + 1 then Some (VBool False) else d ''isActive'')))"
  unfolding retry_pipeline_def retry_stage1_counters[OF assms]
  by (auto simp: retry_stage2_def field_path_def mongo_gte_def cmp_of_def fun_upd_twist)

lemma ex_find_job:
  "find (matches [(''jobId'', VStr ''job-1'')]) (docs ex_collection) = Some ex_record"
  by (simp add: ex_collection_def ex_record_def job_record_def matches_def)

lemma ex_jobsCollection: "jobsCollection ex_sched = Some ex_collection"
  by (simp add: ex_sched_def)

subsection \<open>The timer table\<close>


lemma cancelJobFromMemory_fields:
  "calls (cancelJobFromMemory j s) = calls s"
  "jobsCollection (cancelJobFromMemory j s) = jobsCollection s"
  "retriedCount (cancelJobFromMemory j s) = retriedCount s"
  "opts (cancelJobFromMemory j s) = opts s"
  "initialized (cancelJobFromMemory j s) = initialized s"
  "uuid_next (cancelJobFromMemory j s) = uuid_next s"
  "uuid_pool (cancelJobFromMemory j s) = uuid_pool s"
  "now (rt (cancelJobFromMemory j s)) = now (rt s)"
  "next_handle (rt (cancelJobFromMemory j s)) = next_handle (rt s)"
  by (auto simp: cancelJobFromMemory_def clearTimeout_def Let_def split: option.splits)


lemma cancelJobFromMemory_undefined:
  "getTimeoutId (rt s) j = None \<Longrightarrow> cancelJobFromMemory j s = s"
  by (simp add: cancelJobFromMemory_def)



lemma ex_find_lock:
  "find (matches (lock_query ''job-1'' 5000)) (docs ex_collection) = Some ex_record"
  by (simp add: ex_collection_def ex_record_def job_record_def matches_def lock_query_def)

lemma ex_record_unlocked: "ex_record ''isLocked'' = Some (VBool False)"
  by (simp add: ex_record_def job_record_def)

subsection \<open>Inserting and cancelling\<close>

lemma insertOne_duplicate_jobId:
  assumes "find (matches [(''jobId'', VStr j)]) (docs c) = Some d"
  shows "insertOne (job_record j t md n) c = Inl (MongoError 11000)"
proof -
  have "d \<in> set (docs c)" "matches [(''jobId'', VStr j)] d"
    using assms by (auto simp: find_Some_iff)
  then have d: "d \<in> set (docs c)" "index_key d = VStr j"
    by (auto simp: matches_jobId_key)
  have k: "index_key (job_record j t md n) = VStr j"
    "index_key ((job_record j t md n)(''_id'' \<mapsto> v)) = VStr j" for v
    by (simp_all add: index_key_def field_path_def job_record_def)
  have "list_ex (\<lambda>e. index_key e = VStr j) (docs c)"
    using d by (auto simp: list_ex_iff)
  then show ?thesis
    by (simp add: insertOne_def Let_def k)
qed

lemma clearTimeout_twice: "clearTimeout h (clearTimeout h r) = clearTimeout h r"
  by (simp add: clearTimeout_def split: option.splits)

lemma ex_unique: "unique_jobIds ex_collection"
  by (simp add: unique_jobIds_def ex_collection_def)

subsection \<open>Arming\<close>

lemma Job_scheduleJob_eq:
  "Job_scheduleJob a d j r =
     r\<lparr>next_handle := Suc (next_handle r),
       pending := pending r @ [armed_timer a d j r],
       scheduledJobs := (scheduledJobs r)(j \<mapsto> Some (next_handle r))\<rparr>"
  by (simp add: Job_scheduleJob_def setTimeout_def armed_timer_def timeout_delay_def MAX_TIME_def)


subsection \<open>The retry path\<close>

lemma updateRetryThresholdInDB_fields:
  "calls (snd (updateRetryThresholdInDB j err s)) = calls s"
  "rt (snd (updateRetryThresholdInDB j err s)) = rt s"
  "opts (snd (updateRetryThresholdInDB j err s)) = opts s"
  "retriedCount (snd (updateRetryThresholdInDB j err s)) = retriedCount s"
  "uuid_next (snd (updateRetryThresholdInDB j err s)) = uuid_next s"
  "uuid_pool (snd (updateRetryThresholdInDB j err s)) = uuid_pool s"
  by (auto simp: updateRetryThresholdInDB_def split: option.splits sum.splits)

lemma Job_new_explicit: "j \<noteq> [] \<Longrightarrow> Job_new (Some j) s = (j, s)"
  by (simp add: Job_new_def)

lemma Job_new_fields:
  "calls (snd (Job_new x s)) = calls s"
  "rt (snd (Job_new x s)) = rt s"
  "opts (snd (Job_new x s)) = opts s"
  "retriedCount (snd (Job_new x s)) = retriedCount s"
  "jobsCollection (snd (Job_new x s)) = jobsCollection s"
  "initialized (snd (Job_new x s)) = initialized s"
  by (auto simp: Job_new_def split: option.splits)

lemma wrapCallback_opts:
  "useLock (opts s') = useLock (opts s) \<Longrightarrow> wrapCallback j t f md s' = wrapCallback j t f md s"
  by (simp add: wrapCallback_def)

lemma write_count_fields:
  "calls (write_count j n s) = calls s"
  "rt (write_count j n s) = rt s"
  "opts (write_count j n s) = opts s"
  "jobsCollection (write_count j n s) = jobsCollection s"
  "initialized (write_count j n s) = initialized s"
  "uuid_next (write_count j n s) = uuid_next s"
  "uuid_pool (write_count j n s) = uuid_pool s"
  by (simp_all add: write_count_def)

lemma checkIfRetryExceeded_fields:
  "calls (snd (checkIfRetryExceeded j s)) = calls s"
  "rt (snd (checkIfRetryExceeded j s)) = rt s"
  "opts (snd (checkIfRetryExceeded j s)) = opts s"
  "jobsCollection (snd (checkIfRetryExceeded j s)) = jobsCollection s"
  "initialized (snd (checkIfRetryExceeded j s)) = initialized s"
  "uuid_next (snd (checkIfRetryExceeded j s)) = uuid_next s"
  "uuid_pool (snd (checkIfRetryExceeded j s)) = uuid_pool s"
  by (simp_all add: checkIfRetryExceeded_def Let_def write_count_fields)

lemma handleRetries_cases:
  "handleRetries j t cb err md s =
     (case updateRetryThresholdInDB j err s of
        (Inl e, s1) \<Rightarrow> (Inl e, s1)
      | (Inr u, s1) \<Rightarrow>
          (let s2 = snd (checkIfRetryExceeded j s1)
           in if fst (checkIfRetryExceeded j s1) then (Inr (), s2)
              else (Inr (),
                    (snd (Job_new (Some j) s2))
                      \<lparr>rt := Job_scheduleJob (wrapCallback j t cb md s)
                               (retryWindowInSeconds (opts s) * 1000)
                               (fst (Job_new (Some j) s2)) (rt s)\<rparr>)))"
proof -
  obtain x s1 where u: "updateRetryThresholdInDB j err s = (x, s1)"
    by (cases "updateRetryThresholdInDB j err s")
  have f: "rt s1 = rt s" "opts s1 = opts s"
    using updateRetryThresholdInDB_fields[of j err s] u by simp_all
  show ?thesis
    unfolding handleRetries_def u
    by (cases x)
      (simp_all add: Let_def f split_beta Job_new_fields checkIfRetryExceeded_fields
        wrapCallback_def)
qed

lemma handleRetries_calls: "calls (snd (handleRetries j t cb err md s)) = calls s"
  using updateRetryThresholdInDB_fields(1)[of j err s]
  by (cases "updateRetryThresholdInDB j err s")
    (auto simp: handleRetries_cases Let_def Job_new_fields checkIfRetryExceeded_fields
      split: sum.splits)

lemma handleRetries_opts: "opts (snd (handleRetries j t cb err md s)) = opts s"
  using updateRetryThresholdInDB_fields(3)[of j err s]
  by (cases "updateRetryThresholdInDB j err s")
    (auto simp: handleRetries_cases Let_def Job_new_fields checkIfRetryExceeded_fields
      split: sum.splits)


lemma on_catch_calls: "calls (snd (on_catch j t cb err md s)) = calls s"
  by (simp add: on_catch_def handleRetries_calls cancelJobFromMemory_fields)


lemma deleteJobFromDB_fields:
  "calls (snd (deleteJobFromDB j s)) = calls s"
  "rt (snd (deleteJobFromDB j s)) = rt s"
  "opts (snd (deleteJobFromDB j s)) = opts s"
  "retriedCount (snd (deleteJobFromDB j s)) = retriedCount s"
  by (auto simp: deleteJobFromDB_def split: option.splits)

lemma forget_retries_fields:
  "calls (forget_retries j s) = calls s"
  "rt (forget_retries j s) = rt s"
  "opts (forget_retries j s) = opts s"
  "jobsCollection (forget_retries j s) = jobsCollection s"
  by (simp_all add: forget_retries_def)

lemma acquireLock_fields:
  "calls (snd (acquireLock j t s)) = calls s"
  "rt (snd (acquireLock j t s)) = rt s"
  "opts (snd (acquireLock j t s)) = opts s"
  "retriedCount (snd (acquireLock j t s)) = retriedCount s"
  by (auto simp: acquireLock_def split: option.splits prod.splits)

lemma run_PrepareCallback_calls:
  "calls (snd (run_wrapped (PrepareCallback j t cb md) s)) =
     calls s @ [(now (rt s), callback_arg j t md)]"
  by (simp add: invoke_def on_catch_calls forget_retries_fields deleteJobFromDB_def
      split: outcome.splits thrown.splits option.splits)

subsection \<open>Running a wrapped callback\<close>

lemma run_PrepareCallbackWithlock_calls:
  assumes "fst (acquireLock j t s) = Inr True"
  shows "calls (snd (run_wrapped (PrepareCallbackWithlock j t cb md) s)) =
     calls s @ [(now (rt s), callback_arg j t md)]"
proof -
  obtain s0 where a: "acquireLock j t s = (Inr True, s0)"
    using assms by (cases "acquireLock j t s") auto
  have f: "calls s0 = calls s" "rt s0 = rt s"
    using acquireLock_fields(1,2)[of j t s] a by simp_all
  show ?thesis
    by (simp add: a f invoke_def on_catch_calls forget_retries_fields deleteJobFromDB_def
      split: outcome.splits thrown.splits option.splits)
qed

lemma run_wrapped_opts: "opts (snd (run_wrapped w s)) = opts s"
proof (cases w)
  case (PrepareCallback j t cb md)
  then show ?thesis
    by (simp add: invoke_def on_catch_def handleRetries_opts cancelJobFromMemory_fields
        forget_retries_fields deleteJobFromDB_def split: outcome.splits thrown.splits option.splits)
next
  case (PrepareCallbackWithlock j t cb md)
  obtain x s0 where a: "acquireLock j t s = (x, s0)"
    by (cases "acquireLock j t s")
  have f: "opts s0 = opts s"
    using acquireLock_fields(3)[of j t s] a by simp
  show ?thesis
    unfolding PrepareCallbackWithlock
    by (cases x)
      (simp_all add: a f invoke_def on_catch_def handleRetries_opts cancelJobFromMemory_fields
        forget_retries_fields deleteJobFromDB_def split: outcome.splits thrown.splits option.splits)
qed





lemma callback_arg_metadata: "md k = Some v \<Longrightarrow> callback_arg j t md k = Some v"
  by (simp add: callback_arg_def)


lemma job_record_own:
  "job_record j t md n ''jobId'' = Some (VStr j)"
  "job_record j t md n ''dateToRunOn'' = Some (VDate t)"
  by (simp_all add: job_record_def)




subsection \<open>Storing a job\<close>

lemma insertOne_job_record:
  assumes "insertOne (job_record j t md n) c = Inr c'"
  shows "last (docs c') ''jobId'' = Some (VStr j) \<and> last (docs c') ''dateToRunOn'' = Some (VDate t)"
  using assms
  by (auto simp: insertOne_def Let_def job_record_def split: if_splits)

lemma storeJobInDB_ok:
  assumes "jobsCollection s = Some c" and "insertOne (job_record j t md (now (rt s))) c = Inr c'"
  shows "storeJobInDB j t md s = (Inr (), s\<lparr>jobsCollection := Some c'\<rparr>)"
  using assms by (simp add: storeJobInDB_def)

subsection \<open>Retrying, rehydrating and firing\<close>

lemma updateRetryThresholdInDB_ok:
  assumes "jobsCollection s = Some c"
    and "find (matches [(''jobId'', VStr j)]) (docs c) = Some d"
    and "counter_value 0 (d ''errorCount'') = Some e"
    and "counter_value (- 1) (d ''retriedCount'') = Some r"
  shows "updateRetryThresholdInDB j err s =
     (Inr (), s\<lparr>jobsCollection :=
        Some (c\<lparr>docs := update_first (matches [(''jobId'', VStr j)])
          (\<lambda>_. (d(''errorCount'' \<mapsto> VNum (e + 1),
            ''retriedCount'' \<mapsto> VNum (r + 1),
            ''isLocked'' \<mapsto> VBool False,
            ''errorMessages'' \<mapsto> VArr (messages_of (d ''errorMessages'') @ [VStr err]),
            ''updatedAt'' \<mapsto> VDate (now (rt s))))
          (''isActive'' := (if retryCount (opts s) \<le> r + 1 then Some (VBool False) else d ''isActive'')))
          (docs c)\<rparr>)\<rparr>)"
  by (simp add: updateRetryThresholdInDB_def updateOne_pipeline_def assms(1,2)
      retry_pipeline_counters[OF assms(3,4)])

lemma find_updated_job:
  assumes "find (matches [(''jobId'', VStr j)]) xs = Some d" and "d' ''jobId'' = d ''jobId''"
  shows "find (matches [(''jobId'', VStr j)]) (update_first (matches [(''jobId'', VStr j)]) (\<lambda>_. d') xs)
     = Some d'"
proof -
  have m: "matches [(''jobId'', VStr j)] d" using assms(1) by (auto simp: find_Some_iff)
  then have "matches [(''jobId'', VStr j)] d'" using assms(2) by (simp add: matches_def)
  then show ?thesis
    using assms(1) by (induction xs) (auto split: if_splits)
qed

lemma ex_rehydrated_find:
  "find (matches [(''jobId'', VStr ''job-1'')]) [ex_retried] = Some ex_retried"
proof -
  have "ex_retried ''jobId'' = Some (VStr ''job-1'')"
    by (simp add: ex_retried_def ex_record_def job_record_def)
  then show ?thesis by (simp add: matches_def)
qed





lemma ex_record_metadata: "ex_record = (job_record ''job-1'' 5000 ex_metadata 0)(''_id'' \<mapsto> VOid 0)"
  by (simp add: ex_record_def ex_metadata_def)


lemma fire_next_single:
  assumes "pending (rt s) = [u]"
  shows "fire_next s =
     (case job_fire u ((rt s)\<lparr>now := max (now (rt s)) (t_due u), pending := []\<rparr>) of
        (None, r') \<Rightarrow> Some (Inr (), s\<lparr>rt := r'\<rparr>)
      | (Some w, r') \<Rightarrow> Some (run_wrapped w (s\<lparr>rt := r'\<rparr>)))"
  by (simp add: fire_next_def pop_next_def assms Let_def)


lemma ex_sched_fields:
  "initialized ex_sched" "\<not> useLock (opts ex_sched)" "now (rt ex_sched) = 0"
  "pending (rt ex_sched) = []" "calls ex_sched = []" "next_handle (rt ex_sched) = 0"
  by (simp_all add: ex_sched_def Scheduler_start_def default_options_def)




subsection \<open>Chains of bounded timers\<close>

lemma segments_short: "d \<le> MAX_TIME \<Longrightarrow> segments d = 1"
  by (simp add: segments_def)

lemma div_step:
  fixes M d :: int
  assumes "0 < M" and "M < d"
  shows "(d - 1) div M = (d - M - 1) div M + 1"
proof -
  have "(d - M - 1 + M) div M = (d - M - 1) div M + 1"
    by (rule div_add_self2) (use assms in simp)
  then show ?thesis by (simp add: algebra_simps)
qed

lemma segments_step:
  assumes "MAX_TIME < d"
  shows "segments d = Suc (segments (d - MAX_TIME))"
proof -
  have m: "0 < MAX_TIME" by (simp add: MAX_TIME_def)
  have 1: "(d - 1) div MAX_TIME = (d - MAX_TIME - 1) div MAX_TIME + 1"
    by (rule div_step[OF m assms])
  have 2: "0 \<le> (d - MAX_TIME - 1) div MAX_TIME"
    using assms m by (simp add: pos_imp_zdiv_nonneg_iff)
  have 3: "(d - MAX_TIME - 1) div MAX_TIME = 0" if "d - MAX_TIME \<le> MAX_TIME"
    using assms m that by simp
  show ?thesis
  proof (cases "d - MAX_TIME \<le> MAX_TIME")
    case True
    then show ?thesis using assms by (simp add: segments_def 1 3)
  next
    case False
    then show ?thesis using assms 2 by (simp add: segments_def 1 nat_add_distrib)
  qed
qed

lemma advance_rearm:
  assumes "pending r = []" and "MAX_TIME < d"
  shows "advance (Job_scheduleJob a d j r) = Some (None, Job_scheduleJob a (d - MAX_TIME) j (rearmed j r))"
  using assms
  by (simp add: advance_def pop_next_def Job_scheduleJob_eq armed_timer_def job_fire_def Let_def
      rearmed_def MAX_TIME_def)

lemma advance_fire:
  assumes "pending r = []" and "d \<le> MAX_TIME"
  shows "advance (Job_scheduleJob a d j r) = Some (Some a, fired_runtime d j r)"
  using assms
  by (simp add: advance_def pop_next_def Job_scheduleJob_eq armed_timer_def job_fire_def Let_def
      fired_runtime_def segments_short timeout_delay_def MAX_TIME_def max_def)

lemma advance_idle: "pending r = [] \<Longrightarrow> advance r = None"
  by (simp add: advance_def pop_next_def)

lemma fired_after_rearm:
  assumes "MAX_TIME < d"
  shows "fired_runtime (d - MAX_TIME) j (rearmed j r) = fired_runtime d j r"
proof -
  have "1 \<le> d - MAX_TIME" "1 \<le> d" using assms by (simp_all add: MAX_TIME_def)
  then show ?thesis
    by (simp add: fired_runtime_def rearmed_def segments_step[OF assms] max_def)
qed

lemma rearmed_pending: "pending (rearmed j r) = pending r"
  by (simp add: rearmed_def)

lemma fired_runtime_fields:
  "pending (fired_runtime d j r) = pending r"
  "now (fired_runtime d j r) = now r + max 1 d"
  "getTimeoutId (fired_runtime d j r) j = None"
  by (simp_all add: fired_runtime_def getTimeoutId_def)

lemma fire_next_advance:
  "fire_next s =
     (case advance (rt s) of
        None \<Rightarrow> None
      | Some (None, r') \<Rightarrow> Some (Inr (), s\<lparr>rt := r'\<rparr>)
      | Some (Some w, r') \<Rightarrow> Some (run_wrapped w (s\<lparr>rt := r'\<rparr>)))"
  by (simp add: fire_next_def advance_def split: option.splits prod.splits)

lemma ticks_add: "ticks (m + n) w = ticks n (ticks m w)"
  by (induction m arbitrary: w) simp_all

lemma tick_idle: "pending (tr_rt w) = [] \<Longrightarrow> tick w = w"
  by (simp add: tick_def pop_next_def)


subsection \<open>Running the process\<close>

lemma run_result: "(case x of (Inl e, s') \<Rightarrow> (Inl e, s') | (Inr u, s') \<Rightarrow> (Inr (), s')) = (x :: unit res)"
  by (cases x; cases "fst x") auto

lemma run_last:
  "(case x of (Inl e, s') \<Rightarrow> (Inl e, s') | (Inr u, s') \<Rightarrow> run 0 s') = (x :: unit res)"
  by (cases x; cases "fst x") auto

lemma advance_None: "advance r = None \<Longrightarrow> pending r = []"
  by (cases "pending r") (simp_all add: advance_def pop_next_def Let_def)

lemma fire_next_None: "fire_next s = None \<Longrightarrow> pending (rt s) = []"
  by (rule advance_None) (auto simp: fire_next_advance split: option.splits prod.splits)

lemma run_idle: "pending (rt s) = [] \<Longrightarrow> run m s = (Inr (), s)"
  by (cases m) (simp_all add: fire_next_advance advance_idle)

lemma run_add:
  "run (m + n) s = (case run m s of (Inl e, s') \<Rightarrow> (Inl e, s') | (Inr u, s') \<Rightarrow> run n s')"
proof (induction m arbitrary: s)
  case 0
  then show ?case by simp
next
  case (Suc m)
  show ?case
  proof (cases "fire_next s")
    case None
    then have "pending (rt s) = []"
      by (rule fire_next_None)
    then show ?thesis by (simp add: None run_idle)
  next
    case (Some x)
    then show ?thesis
      using Suc.IH by (cases x; cases "fst x") auto
  qed
qed

lemma run_then:
  assumes "run m s = (Inr (), s1)" and "run n s1 = x"
  shows "run (m + n) s = x"
  using assms by (simp add: run_add)

lemma run_chain:
  assumes "pending (rt s) = []" and "segments d = n"
  shows "run n (s\<lparr>rt := Job_scheduleJob w d j (rt s)\<rparr>)
     = run_wrapped w (s\<lparr>rt := fired_runtime d j (rt s)\<rparr>)"
  using assms
proof (induction n arbitrary: d s)
  case 0
  then show ?case by (simp add: segments_def split: if_splits)
next
  case (Suc n)
  show ?case
  proof (cases "d \<le> MAX_TIME")
    case True
    then have "n = 0" using Suc.prems(2) by (simp add: segments_short)
    then show ?thesis
      by (simp add: fire_next_advance advance_fire[OF Suc.prems(1) True] run_last
          del: run_wrapped.simps run.simps(1))
  next
    case False
    then have big: "MAX_TIME < d" by simp
    have k: "segments (d - MAX_TIME) = n"
      using Suc.prems(2) by (simp add: segments_step[OF big])
    let ?s1 = "s\<lparr>rt := rearmed j (rt s)\<rparr>"
    have p: "pending (rt ?s1) = []"
      by (simp add: rearmed_pending Suc.prems(1))
    have f: "fire_next (s\<lparr>rt := Job_scheduleJob w d j (rt s)\<rparr>)
        = Some (Inr (), ?s1\<lparr>rt := Job_scheduleJob w (d - MAX_TIME) j (rt ?s1)\<rparr>)"
      by (simp add: fire_next_advance advance_rearm[OF Suc.prems(1) big])
    show ?thesis
      using Suc.IH[OF p k]
      by (simp add: f fired_after_rearm[OF big] del: run_wrapped.simps)
  qed
qed

subsection \<open>One record for each job id\<close>













subsection \<open>A callback that throws \<open>undefined\<close>\<close>

lemma ex_schedule_throwing:
  "scheduleJob (Some always_throw_undefined) 5000 (Some ''job-1'') ex_metadata ex_empty =
     (Inr ''job-1'', ex_throwing)"
proof -
  have i: "insertOne (job_record ''job-1'' 5000 ex_metadata 0) \<lparr>docs = [], next_oid = 0\<rparr> = Inr ex_collection"
    by (simp add: insertOne_def Let_def ex_collection_def ex_record_def ex_metadata_def job_record_def)
  have n: "now (rt ex_empty) = 0" "jobsCollection ex_empty = Some \<lparr>docs = [], next_oid = 0\<rparr>"
    "initialized ex_empty" "\<not> useLock (opts ex_empty)"
    by (simp_all add: ex_empty_def Scheduler_start_def default_options_def)
  have s: "storeJobInDB ''job-1'' 5000 ex_metadata ex_empty = (Inr (), ex_empty\<lparr>jobsCollection := Some ex_collection\<rparr>)"
    using storeJobInDB_ok[OF n(2), of "''job-1''" 5000 ex_metadata ex_collection] i n(1) by simp
  have e: "ex_empty\<lparr>jobsCollection := Some ex_collection\<rparr> = ex_sched"
    by (simp add: ex_empty_def ex_sched_def)
  show ?thesis
    using n(3,4)
    by (simp add: scheduleJob_def Job_new_explicit s e ex_throwing_def wrapCallback_def
        ex_sched_def Scheduler_start_def default_options_def)
qed

lemma ex_throwing_pending:
  "pending (rt ex_throwing) =
     [\<lparr>t_handle = 0, t_due = 5000, t_job = ''job-1'',
       t_body = Fire (PrepareCallback ''job-1'' 5000 always_throw_undefined ex_metadata)\<rparr>]"
  by (simp add: ex_throwing_def Job_scheduleJob_def setTimeout_def MAX_TIME_def timeout_delay_def
      ex_sched_fields)

lemma ex_throwing_fire:
  "fire_next ex_throwing =
     Some (Inl TypeError,
       ex_throwing\<lparr>rt := (rt ex_throwing)\<lparr>now := 5000, pending := [],
                       scheduledJobs := (scheduledJobs (rt ex_throwing))(''job-1'' \<mapsto> None)\<rparr>,
                   calls := [(5000, callback_arg ''job-1'' 5000 ex_metadata)]\<rparr>)"
proof -
  have n: "now (rt ex_throwing) = 0" "calls ex_throwing = []"
    by (simp_all add: ex_throwing_def Job_scheduleJob_def setTimeout_def MAX_TIME_def ex_sched_fields)
  show ?thesis
    by (simp add: fire_next_single[OF ex_throwing_pending] job_fire_def invoke_def
        always_throw_undefined_def n)
qed

subsection \<open>Counting failures\<close>

lemma counted_0: "counted 0 j s = s"
  by (simp add: counted_def)

lemma counted_Suc: "counted (Suc n) j s = snd (checkIfRetryExceeded j (counted n j s))"
  by (simp add: counted_def)

lemma count_proto: "checkIfRetryExceeded ''__proto__'' s = (False, s)"
  by (simp add: checkIfRetryExceeded_def read_count_def write_count_def)

lemma count_first:
  assumes "j \<noteq> ''__proto__''" and "j \<notin> set prototype_methods" and "retriedCount s j = None"
  shows "checkIfRetryExceeded j s =
     (1 > retryCount (opts s), s\<lparr>retriedCount := (retriedCount s)(j \<mapsto> Num 1)\<rparr>)"
  using assms by (simp add: checkIfRetryExceeded_def read_count_def write_count_def)

lemma count_inherited:
  assumes "j \<noteq> ''__proto__''" and "j \<in> set prototype_methods" and "retriedCount s j = None"
  shows "checkIfRetryExceeded j s = (False, s\<lparr>retriedCount := (retriedCount s)(j \<mapsto> NaN)\<rparr>)"
  using assms by (simp add: checkIfRetryExceeded_def read_count_def write_count_def)

lemma count_NaN:
  assumes "j \<noteq> ''__proto__''" and "retriedCount s j = Some NaN"
  shows "checkIfRetryExceeded j s =
     (1 > retryCount (opts s), s\<lparr>retriedCount := (retriedCount s)(j \<mapsto> Num 1)\<rparr>)"
  using assms by (simp add: checkIfRetryExceeded_def read_count_def write_count_def)

lemma count_next:
  assumes "j \<noteq> ''__proto__''" and "retriedCount s j = Some (Num k)" and "k \<noteq> 0"
  shows "checkIfRetryExceeded j s =
     (k + 1 > retryCount (opts s), s\<lparr>retriedCount := (retriedCount s)(j \<mapsto> Num (k + 1))\<rparr>)"
  using assms by (simp add: checkIfRetryExceeded_def read_count_def write_count_def)

lemma start_fields:
  "retriedCount (Scheduler_start t0 pool) = Map.empty" "retryCount (opts (Scheduler_start t0 pool)) = 3"
  by (simp_all add: Scheduler_start_def default_options_def)

lemma constructor_inherited:
  "''constructor'' \<noteq> ''__proto__''" "''constructor'' \<in> set prototype_methods"
  by (simp_all add: prototype_methods_def)

lemma job_1_regular:
  "''job-1'' \<noteq> ''__proto__''" "''job-1'' \<notin> set prototype_methods"
  by (simp_all add: prototype_methods_def)

lemma counted_opts: "opts (counted n j s) = opts s"
  by (induction n) (simp_all add: counted_0 counted_Suc checkIfRetryExceeded_fields)

lemma counted_job_1:
  "retriedCount (counted (Suc n) ''job-1'' (Scheduler_start t0 pool)) ''job-1'' = Some (Num (int n + 1))"
proof (induction n)
  case 0
  show ?case
    by (simp add: counted_Suc counted_0 count_first[OF job_1_regular] start_fields)
next
  case (Suc n)
  show ?case
    by (simp add: counted_Suc[of "Suc n"] count_next[OF job_1_regular(1) Suc])
qed

lemma counted_constructor_1:
  "retriedCount (counted (Suc 0) ''constructor'' (Scheduler_start t0 pool)) ''constructor'' = Some NaN"
  by (simp add: counted_Suc counted_0 count_inherited[OF constructor_inherited] start_fields)

lemma counted_constructor:
  "retriedCount (counted (Suc (Suc n)) ''constructor'' (Scheduler_start t0 pool)) ''constructor'' =
     Some (Num (int n + 1))"
proof (induction n)
  case 0
  show ?case
    by (simp add: counted_Suc[of "Suc 0"] count_NaN[OF constructor_inherited(1) counted_constructor_1])
next
  case (Suc n)
  show ?case
    by (simp add: counted_Suc[of "Suc (Suc n)"] count_next[OF constructor_inherited(1) Suc])
qed

lemma exceeded_job_1:
  "fst (checkIfRetryExceeded ''job-1'' (counted n ''job-1'' (Scheduler_start t0 pool))) = (3 \<le> n)"
proof (cases n)
  case 0
  then show ?thesis
    by (simp add: counted_0 count_first[OF job_1_regular] start_fields)
next
  case (Suc m)
  then show ?thesis
    by (auto simp: count_next[OF job_1_regular(1) counted_job_1] counted_opts start_fields)
qed

lemma exceeded_constructor:
  "fst (checkIfRetryExceeded ''constructor'' (counted n ''constructor'' (Scheduler_start t0 pool))) = (4 \<le> n)"
proof (cases n)
  case 0
  then show ?thesis
    by (simp add: counted_0 count_inherited[OF constructor_inherited] start_fields)
next
  case (Suc m)
  show ?thesis
  proof (cases m)
    case 0
    with Suc show ?thesis
      by (simp add: count_NaN[OF constructor_inherited(1) counted_constructor_1] counted_opts start_fields)
  next
    case (Suc k)
    with \<open>n = Suc m\<close> show ?thesis
      by (auto simp: count_next[OF constructor_inherited(1) counted_constructor] counted_opts start_fields)
  qed
qed

subsection \<open>The event loop with several jobs\<close>

lemma earliest_bound:
  "t_due (earliest t ts) \<le> t_due t \<and> (\<forall>v\<in>set ts. t_due (earliest t ts) \<le> t_due v)"
proof (induction ts arbitrary: t)
  case Nil
  show ?case by simp
next
  case (Cons u us)
  from Cons[of "if t_due u < t_due t then u else t"] show ?case
    by (auto split: if_splits)
qed

lemma earliest_mem: "earliest t ts \<in> set (t # ts)"
proof (induction ts arbitrary: t)
  case Nil
  show ?case by simp
next
  case (Cons u us)
  from Cons[of "if t_due u < t_due t then u else t"] show ?case
    by (auto split: if_splits)
qed

lemma tick_step:
  assumes "pending (tr_rt w) \<noteq> []"
  shows "\<exists>e. e \<in> set (pending (tr_rt w)) \<and> (\<forall>v\<in>set (pending (tr_rt w)). t_due e \<le> t_due v) \<and>
     tick w =
       (case t_body e of
          Rearm b k \<Rightarrow> w\<lparr>tr_rt := Job_scheduleJob b k (t_job e) (popped e (tr_rt w))\<rparr>
        | Fire b \<Rightarrow>
            w\<lparr>tr_rt := (popped e (tr_rt w))
                 \<lparr>scheduledJobs := (scheduledJobs (popped e (tr_rt w)))(t_job e \<mapsto> None)\<rparr>,
              tr_fired := tr_fired w @ [(now (popped e (tr_rt w)), t_job e, b)]\<rparr>)"
proof -
  from assms obtain t ts where p: "pending (tr_rt w) = t # ts"
    by (cases "pending (tr_rt w)") auto
  let ?e = "earliest t ts"
  have 1: "?e \<in> set (pending (tr_rt w))"
    using earliest_mem[of t ts] by (simp add: p)
  have 2: "\<forall>v\<in>set (pending (tr_rt w)). t_due ?e \<le> t_due v"
    using earliest_bound[of t ts] by (simp add: p)
  have 3: "pop_next (tr_rt w) = Some (?e, popped ?e (tr_rt w))"
    by (simp add: pop_next_def p popped_def Let_def)
  have 4: "tick w =
       (case t_body ?e of
          Rearm b k \<Rightarrow> w\<lparr>tr_rt := Job_scheduleJob b k (t_job ?e) (popped ?e (tr_rt w))\<rparr>
        | Fire b \<Rightarrow>
            w\<lparr>tr_rt := (popped ?e (tr_rt w))
                 \<lparr>scheduledJobs := (scheduledJobs (popped ?e (tr_rt w)))(t_job ?e \<mapsto> None)\<rparr>,
              tr_fired := tr_fired w @ [(now (popped ?e (tr_rt w)), t_job ?e, b)]\<rparr>)"
    by (simp add: tick_def 3 job_fire_def split: timer_body.splits)
  from 1 2 4 show ?thesis by blast
qed

lemma handles_ok_popped: "handles_ok r \<Longrightarrow> handles_ok (popped e r)"
  by (auto simp: handles_ok_def popped_def distinct_map_filter list_all_iff)

lemma handles_ok_arm: "handles_ok r \<Longrightarrow> handles_ok (Job_scheduleJob b k i r)"
  by (auto simp: handles_ok_def Job_scheduleJob_eq armed_timer_def list_all_iff)

lemma handles_ok_table: "handles_ok (r\<lparr>scheduledJobs := m\<rparr>) = handles_ok r"
  by (simp add: handles_ok_def)














subsection \<open>A chain under way\<close>














subsection \<open>The loop comes to rest\<close>











subsection \<open>Two jobs, and two chains under one id\<close>





subsection \<open>Handles stay distinct\<close>

lemma handles_ok_empty: "pending r = [] \<Longrightarrow> handles_ok r"
  by (simp add: handles_ok_def)

lemma handles_ok_tick:
  assumes "handles_ok (tr_rt w)"
  shows "handles_ok (tr_rt (tick w))"
proof (cases "pending (tr_rt w) = []")
  case True
  then show ?thesis using assms by (simp add: tick_idle)
next
  case False
  from tick_step[OF False] obtain e where
    s: "tick w =
       (case t_body e of
          Rearm b k \<Rightarrow> w\<lparr>tr_rt := Job_scheduleJob b k (t_job e) (popped e (tr_rt w))\<rparr>
        | Fire b \<Rightarrow>
            w\<lparr>tr_rt := (popped e (tr_rt w))
                 \<lparr>scheduledJobs := (scheduledJobs (popped e (tr_rt w)))(t_job e \<mapsto> None)\<rparr>,
              tr_fired := tr_fired w @ [(now (popped e (tr_rt w)), t_job e, b)]\<rparr>)"
    by blast
  note p = handles_ok_popped[OF assms, of e]
  show ?thesis
  proof (cases "t_body e")
    case (Rearm b k)
    then show ?thesis using handles_ok_arm[OF p] by (simp add: s)
  next
    case (Fire b)
    then show ?thesis using p by (simp add: s handles_ok_table)
  qed
qed

lemma handles_ok_ticks: "handles_ok (tr_rt w) \<Longrightarrow> handles_ok (tr_rt (ticks k w))"
  by (induction k arbitrary: w) (simp_all add: handles_ok_tick)

section \<open>Claims\<close>

subsection \<open>C3: the failure transition\<close>

text \<open>
  C3 (as amended). One application of the failure transition is a single update of the
  job's record and of nothing else. On a record whose two counters are numbers or absent it
  adds 1 to \<open>errorCount\<close>, an absent field counting as 0, and 1 to \<open>retriedCount\<close>, an absent
  field counting as -1; it sets \<open>isLocked\<close> to false, appends the serialized error to
  \<open>errorMessages\<close>, sets \<open>updatedAt\<close> to the current time, sets \<open>isActive\<close> to false when the
  new \<open>retriedCount\<close> has reached \<open>retryCount\<close> and leaves it as it was otherwise; every
  other field is kept.
\<close>

theorem updateRetryThresholdInDB_transition:
  assumes "jobsCollection s = Some c"
    and "find (matches [(''jobId'', VStr j)]) (docs c) = Some d"
    and "counter_value 0 (d ''errorCount'') = Some e"
    and "counter_value (- 1) (d ''retriedCount'') = Some r"
  shows "\<exists>d'. updateRetryThresholdInDB j err s =
           (Inr (), s\<lparr>jobsCollection :=
              Some (c\<lparr>docs := update_first (matches [(''jobId'', VStr j)]) (\<lambda>_. d') (docs c)\<rparr>)\<rparr>)
       \<and> d' ''errorCount'' = Some (VNum (e + 1))
       \<and> d' ''retriedCount'' = Some (VNum (r + 1))
       \<and> d' ''isLocked'' = Some (VBool False)
       \<and> d' ''errorMessages'' = Some (VArr (messages_of (d ''errorMessages'') @ [VStr err]))
       \<and> d' ''updatedAt'' = Some (VDate (now (rt s)))
       \<and> d' ''isActive'' = (if retryCount (opts s) \<le> r + 1 then Some (VBool False) else d ''isActive'')
       \<and> (\<forall>k. k \<notin> retry_fields \<longrightarrow> d' k = d k)"
proof -
  let ?d' = "(d(''errorCount'' \<mapsto> VNum (e + 1),
            ''retriedCount'' \<mapsto> VNum (r + 1),
            ''isLocked'' \<mapsto> VBool False,
            ''errorMessages'' \<mapsto> VArr (messages_of (d ''errorMessages'') @ [VStr err]),
            ''updatedAt'' \<mapsto> VDate (now (rt s))))
          (''isActive'' := (if retryCount (opts s) \<le> r + 1 then Some (VBool False) else d ''isActive''))"
  have p: "retry_pipeline err (retryCount (opts s)) (now (rt s)) d = Inr ?d'"
    by (rule retry_pipeline_counters[OF assms(3,4)])
  have "updateRetryThresholdInDB j err s =
           (Inr (), s\<lparr>jobsCollection :=
              Some (c\<lparr>docs := update_first (matches [(''jobId'', VStr j)]) (\<lambda>_. ?d') (docs c)\<rparr>)\<rparr>)"
    by (simp add: updateRetryThresholdInDB_def updateOne_pipeline_def assms(1,2) p)
  moreover have "\<forall>k. k \<notin> retry_fields \<longrightarrow> ?d' k = d k"
    by (simp add: retry_fields_def)
  ultimately show ?thesis
    by (intro exI[of _ ?d']) simp
qed

text \<open>The transition on the running example: a fresh record under the default options.\<close>

theorem updateRetryThresholdInDB_transition_witness:
  "jobsCollection ex_sched = Some ex_collection
   \<and> find (matches [(''jobId'', VStr ''job-1'')]) (docs ex_collection) = Some ex_record
   \<and> counter_value 0 (ex_record ''errorCount'') = Some 0
   \<and> counter_value (- 1) (ex_record ''retriedCount'') = Some (- 1)
   \<and> (\<exists>d'. fst (updateRetryThresholdInDB ''job-1'' ''boom'' ex_sched) = Inr ()
         \<and> d' ''errorCount'' = Some (VNum 1) \<and> d' ''retriedCount'' = Some (VNum 0)
         \<and> d' ''isActive'' = Some (VBool True))"
proof -
  have h3: "counter_value 0 (ex_record ''errorCount'') = Some 0"
    by (simp add: counter_value_def ex_record_def job_record_def)
  have h4: "counter_value (- 1) (ex_record ''retriedCount'') = Some (- 1)"
    by (simp add: counter_value_def ex_record_def job_record_def)
  have a: "ex_record ''isActive'' = Some (VBool True)"
    by (simp add: ex_record_def job_record_def)
  have r: "retryCount (opts ex_sched) = 3"
    by (simp add: ex_sched_def Scheduler_start_def default_options_def)
  from updateRetryThresholdInDB_transition[OF ex_jobsCollection ex_find_job h3 h4, of "''boom''"]
  obtain d' where "updateRetryThresholdInDB ''job-1'' ''boom'' ex_sched =
           (Inr (), ex_sched\<lparr>jobsCollection :=
              Some (ex_collection\<lparr>docs := update_first (matches [(''jobId'', VStr ''job-1'')]) (\<lambda>_. d') (docs ex_collection)\<rparr>)\<rparr>)"
    "d' ''errorCount'' = Some (VNum 1)" "d' ''retriedCount'' = Some (VNum 0)"
    "d' ''isActive'' = Some (VBool True)"
    by (auto simp: r a)
  then show ?thesis
    using ex_jobsCollection ex_find_job h3 h4 by auto
qed

text \<open>
  C3 as stated has both counters start from 0, so that both are 1 after the first failure
  of a fresh record. The record written by \<open>storeJobInDB\<close> has no \<open>retriedCount\<close>; after one
  failure its \<open>errorCount\<close> is 1 and its \<open>retriedCount\<close> is 0.
\<close>

theorem absent_retriedCount_counterexample:
  "\<not> isl (retry_pipeline ''boom'' 3 7 (job_record ''job-1'' 5000 Map.empty 0))
   \<and> job_record ''job-1'' 5000 Map.empty 0 ''retriedCount'' = None
   \<and> projr (retry_pipeline ''boom'' 3 7 (job_record ''job-1'' 5000 Map.empty 0)) ''errorCount''
       = Some (VNum 1)
   \<and> projr (retry_pipeline ''boom'' 3 7 (job_record ''job-1'' 5000 Map.empty 0)) ''retriedCount''
       = Some (VNum 0)
   \<and> projr (retry_pipeline ''boom'' 3 7 (job_record ''job-1'' 5000 Map.empty 0)) ''retriedCount''
       \<noteq> Some (VNum 1)"
  by (simp add: retry_pipeline_def retry_stage1_def retry_stage2_def job_record_def mongo_ifNull_def
      field_path_def mongo_gte_def cmp_of_def)

subsection \<open>C7: a job id that is already stored\<close>

text \<open>
  C7. \<open>scheduleJob\<close> with an explicit (non-empty) job id for which the store already holds
  a record fails with "JobId must be unique", the error \<open>storeJobInDB\<close> makes of the store's
  code 11000, and leaves the whole state as it was: the stored records, and with them the
  first job's, are unchanged and no timer is armed.
\<close>

theorem scheduleJob_duplicate_jobId:
  assumes "initialized s"
    and "jobsCollection s = Some c"
    and "j \<noteq> []"
    and "find (matches [(''jobId'', VStr j)]) (docs c) = Some d"
  shows "scheduleJob (Some f) t (Some j) md s = (Inl JobIdMustBeUnique, s)"
  using assms(1-3)
  by (simp add: scheduleJob_def Job_new_def storeJobInDB_def insertOne_duplicate_jobId[OF assms(4)])

text \<open>Scheduling \<open>job-1\<close> again in the running example.\<close>

theorem scheduleJob_duplicate_jobId_witness:
  "initialized ex_sched \<and> jobsCollection ex_sched = Some ex_collection \<and> ''job-1'' \<noteq> []
   \<and> find (matches [(''jobId'', VStr ''job-1'')]) (docs ex_collection) = Some ex_record
   \<and> scheduleJob (Some always_ok) 9000 (Some ''job-1'') Map.empty ex_sched = (Inl JobIdMustBeUnique, ex_sched)"
proof -
  have i: "initialized ex_sched" by (simp add: ex_sched_def)
  have n: "''job-1'' \<noteq> []" by simp
  show ?thesis
    using scheduleJob_duplicate_jobId[OF i ex_jobsCollection n ex_find_job, of always_ok 9000 Map.empty]
      i ex_jobsCollection ex_find_job by simp
qed

subsection \<open>C8: cancelling twice\<close>

text \<open>
  C8. With the collection connected and its job ids unique, \<open>cancelJob\<close> succeeds, and a
  second \<open>cancelJob\<close> for the same job succeeds too and changes nothing: the timer table,
  the armed timers and the store stay as the first call left them.
\<close>

theorem cancelJob_idempotent:
  assumes "jobsCollection s = Some c" and "unique_jobIds c"
  shows "fst (cancelJob x s) = Inr ()
     \<and> cancelJob x (snd (cancelJob x s)) = (Inr (), snd (cancelJob x s))"
proof (cases x)
  case (JobIdString j)
  then show ?thesis
    using assms
    by (simp add: cancelJob_def deleteJobFromDB_def Let_def deleteOne_twice getTimeoutId_def
        clearTimeout_def)
next
  case (JobInstance j)
  then show ?thesis
    using assms
    by (simp add: cancelJob_def deleteJobFromDB_def Let_def deleteOne_twice getTimeoutId_def
        Job_cancelJob_def clearTimeout_def)
qed

text \<open>Cancelling \<open>job-1\<close> twice in the running example.\<close>

theorem cancelJob_idempotent_witness:
  "jobsCollection ex_sched = Some ex_collection \<and> unique_jobIds ex_collection
   \<and> fst (cancelJob (JobIdString ''job-1'') ex_sched) = Inr ()
   \<and> cancelJob (JobIdString ''job-1'') (snd (cancelJob (JobIdString ''job-1'') ex_sched))
       = (Inr (), snd (cancelJob (JobIdString ''job-1'') ex_sched))"
  using cancelJob_idempotent[OF ex_jobsCollection ex_unique, of "JobIdString ''job-1''"]
    ex_jobsCollection ex_unique by simp

subsection \<open>C4: operations before \<open>init\<close>\<close>

text \<open>
  C4. \<open>cancelJob\<close> has no check of \<open>initialized\<close>. In a process where \<open>init\<close> was never called
  it fails with the \<open>TypeError\<close> of calling \<open>deleteOne\<close> on the undefined collection, not with
  "Scheduler not Initialised"; while \<open>init\<close> is under way, with the collection already
  assigned, it succeeds and deletes the record. \<open>scheduleJob\<close> checks first, and \<open>updateJob\<close>
  reaches the check of \<open>scheduleJobInMemory\<close>.
\<close>

theorem cancelJob_before_init:
  "\<not> initialized (Scheduler_start 0 pool)
   \<and> fst (cancelJob (JobIdString ''job-1'') (Scheduler_start 0 pool)) = Inl TypeError
   \<and> fst (cancelJob (JobInstance ''job-1'') (Scheduler_start 0 pool)) = Inl TypeError
   \<and> \<not> initialized ex_connecting
   \<and> fst (cancelJob (JobIdString ''job-1'') ex_connecting) = Inr ()
   \<and> map_option docs (jobsCollection (snd (cancelJob (JobIdString ''job-1'') ex_connecting))) = Some []
   \<and> fst (scheduleJob (Some f) 9000 (Some ''job-1'') Map.empty (Scheduler_start 0 pool))
       = Inl SchedulerNotInitialised
   \<and> fst (updateJob ''job-1'' (Some f) 9000 Map.empty (Scheduler_start 0 pool))
       = Inl SchedulerNotInitialised"
  by (simp add: cancelJob_def deleteJobFromDB_def Scheduler_start_def Let_def ex_connecting_def
      ex_collection_def deleteOne_def matches_def ex_record_def job_record_def scheduleJob_def
      updateJob_def scheduleJobInMemory_def Job_cancelJob_def getTimeoutId_def clearTimeout_def)

subsection \<open>C10: metadata that names \<open>jobId\<close> or \<open>dateToRunOn\<close>\<close>

text \<open>
  C10. In the object passed to the user callback the metadata is spread last: where it has
  a key \<open>jobId\<close> or \<open>dateToRunOn\<close>, the callback sees the metadata's value. In the stored
  record the metadata is spread first: \<open>jobId\<close> and \<open>dateToRunOn\<close> hold the job's id and due
  date. So when the metadata's value is not the job's own, the argument and the record
  differ in that field. The argument is the one both wrappers pass, and the record is the
  one \<open>storeJobInDB\<close> inserts.
\<close>

theorem metadata_key_clash:
  "(md ''jobId'' = Some v \<longrightarrow> callback_arg j t md ''jobId'' = Some v)
   \<and> (md ''dateToRunOn'' = Some w \<longrightarrow> callback_arg j t md ''dateToRunOn'' = Some w)
   \<and> job_record j t md n ''jobId'' = Some (VStr j)
   \<and> job_record j t md n ''dateToRunOn'' = Some (VDate t)
   \<and> (md ''jobId'' = Some v \<and> v \<noteq> VStr j
        \<longrightarrow> callback_arg j t md ''jobId'' \<noteq> job_record j t md n ''jobId'')
   \<and> (md ''dateToRunOn'' = Some w \<and> w \<noteq> VDate t
        \<longrightarrow> callback_arg j t md ''dateToRunOn'' \<noteq> job_record j t md n ''dateToRunOn'')
   \<and> calls (snd (run_wrapped (PrepareCallback j t cb md) s))
        = calls s @ [(now (rt s), callback_arg j t md)]
   \<and> (fst (acquireLock j t p) = Inr True
        \<longrightarrow> calls (snd (run_wrapped (PrepareCallbackWithlock j t cb md) p))
            = calls p @ [(now (rt p), callback_arg j t md)])
   \<and> (jobsCollection q = Some c \<and> insertOne (job_record j t md (now (rt q))) c = Inr c'
        \<longrightarrow> storeJobInDB j t md q = (Inr (), q\<lparr>jobsCollection := Some c'\<rparr>)
          \<and> last (docs c') ''jobId'' = Some (VStr j)
          \<and> last (docs c') ''dateToRunOn'' = Some (VDate t))"
  using run_PrepareCallback_calls[of j t cb md s] run_PrepareCallbackWithlock_calls[of j t p cb md]
    storeJobInDB_ok[of q c j t md c'] insertOne_job_record[of j t md "now (rt q)" c c']
  by (simp add: callback_arg_metadata job_record_own del: run_wrapped.simps)

text \<open>Metadata \<open>{jobId: "other", dateToRunOn: 1}\<close> for \<open>job-1\<close>, due at 5000.\<close>

theorem metadata_key_clash_witness:
  "ex_clash ''jobId'' = Some (VStr ''other'') \<and> VStr ''other'' \<noteq> VStr ''job-1''
   \<and> ex_clash ''dateToRunOn'' = Some (VDate 1) \<and> VDate 1 \<noteq> VDate 5000
   \<and> fst (acquireLock ''job-1'' 5000 ex_sched) = Inr True
   \<and> jobsCollection ex_empty = Some \<lparr>docs = [], next_oid = 0\<rparr>
   \<and> insertOne (job_record ''job-1'' 5000 ex_clash (now (rt ex_empty))) \<lparr>docs = [], next_oid = 0\<rparr>
       = Inr \<lparr>docs = [(job_record ''job-1'' 5000 ex_clash 0)(''_id'' \<mapsto> VOid 0)], next_oid = 1\<rparr>
   \<and> callback_arg ''job-1'' 5000 ex_clash ''jobId'' = Some (VStr ''other'')
   \<and> callback_arg ''job-1'' 5000 ex_clash ''dateToRunOn'' = Some (VDate 1)
   \<and> job_record ''job-1'' 5000 ex_clash 0 ''jobId'' = Some (VStr ''job-1'')
   \<and> callback_arg ''job-1'' 5000 ex_clash ''jobId'' \<noteq> job_record ''job-1'' 5000 ex_clash 0 ''jobId''
   \<and> map snd (calls (snd (run_wrapped (PrepareCallbackWithlock ''job-1'' 5000 always_ok ex_clash) ex_sched)))
       = [callback_arg ''job-1'' 5000 ex_clash]
   \<and> fst (storeJobInDB ''job-1'' 5000 ex_clash ex_empty) = Inr ()"
proof -
  have h1: "ex_clash ''jobId'' = Some (VStr ''other'')" "ex_clash ''dateToRunOn'' = Some (VDate 1)"
    by (simp_all add: ex_clash_def)
  have u: "ex_record ''isLocked'' \<noteq> Some (VBool True)"
    by (simp add: ex_record_unlocked)
  have h2: "fst (acquireLock ''job-1'' 5000 ex_sched) = Inr True"
    by (simp add: acquireLock_success[OF ex_jobsCollection ex_find_lock u])
  have h3: "jobsCollection ex_empty = Some \<lparr>docs = [], next_oid = 0\<rparr>"
    by (simp add: ex_empty_def)
  have h4: "insertOne (job_record ''job-1'' 5000 ex_clash (now (rt ex_empty))) \<lparr>docs = [], next_oid = 0\<rparr>
       = Inr \<lparr>docs = [(job_record ''job-1'' 5000 ex_clash 0)(''_id'' \<mapsto> VOid 0)], next_oid = 1\<rparr>"
    by (simp add: insertOne_def Let_def job_record_def ex_clash_def ex_empty_def Scheduler_start_def)
  have k: "calls ex_sched = []"
    by (simp add: ex_sched_def Scheduler_start_def)
  note t = metadata_key_clash[of ex_clash "VStr ''other''" "''job-1''" 5000 "VDate 1" 0 always_ok
      ex_sched ex_sched ex_empty "\<lparr>docs = [], next_oid = 0\<rparr>"
      "\<lparr>docs = [(job_record ''job-1'' 5000 ex_clash 0)(''_id'' \<mapsto> VOid 0)], next_oid = 1\<rparr>"]
  show ?thesis
    using t h1 h2 h3 h4 by (simp add: k del: run_wrapped.simps)
qed

subsection \<open>C6: the argument of the user callback\<close>




subsection \<open>C2: claiming a firing\<close>



subsection \<open>C1: a job that always fails\<close>

text \<open>
  C1. A callback that fails by throwing \<open>undefined\<close> is not retried. With the default
  \<open>retryCount\<close> of 3, \<open>job-1\<close> is scheduled with such a callback on the empty collection. When
  its timer fires the callback is invoked once, at 5000; the \<open>catch\<close> block reads
  \<open>error.message\<close> of the thrown value and the \<open>TypeError\<close> of that read leaves the wrapped
  callback. However long the loop is run, there is this one invocation, no timer is armed,
  and the record is as it was stored, with \<open>isActive = true\<close> and no \<open>retriedCount\<close>.
\<close>

theorem undefined_rejection_not_retried:
  "scheduleJob (Some always_throw_undefined) 5000 (Some ''job-1'') ex_metadata ex_empty =
     (Inr ''job-1'', ex_throwing)
   \<and> retryCount (opts ex_throwing) = 3
   \<and> fst (run (Suc n) ex_throwing) = Inl TypeError
   \<and> calls (snd (run (Suc n) ex_throwing)) = [(5000, callback_arg ''job-1'' 5000 ex_metadata)]
   \<and> pending (rt (snd (run (Suc n) ex_throwing))) = []
   \<and> map_option docs (jobsCollection (snd (run (Suc n) ex_throwing))) = Some [ex_record]
   \<and> ex_record ''isActive'' = Some (VBool True)
   \<and> ex_record ''retriedCount'' = None"
  by (simp add: ex_schedule_throwing ex_throwing_fire)
    (simp add: ex_throwing_def ex_sched_def Scheduler_start_def default_options_def
      ex_collection_def ex_record_def job_record_def)

subsection \<open>C9: the count kept in the process\<close>

text \<open>
  C9. \<open>Scheduler.retriedCount\<close> is a plain object, so for a job whose id is the name of a
  property that every object inherits the count does not start at 0. In a process that
  has just started, with the default \<open>retryCount\<close> of 3, the entry \<open>constructor\<close> reads as the
  inherited function: it is not reset, the increment stores \<open>NaN\<close>, and the retry is found
  exceeded at the fifth failure, where for \<open>job-1\<close> it is the fourth. The entry \<open>__proto__\<close>
  cannot be assigned a number: in every state of the process the retry is found not
  exceeded and the state is as before.
\<close>

theorem inherited_count:
  "retryCount (opts (Scheduler_start t0 pool)) = 3
   \<and> read_count (Scheduler_start t0 pool) ''job-1'' = Undefined
   \<and> read_count (Scheduler_start t0 pool) ''constructor'' = Inherited
   \<and> read_count (counted 1 ''job-1'' (Scheduler_start t0 pool)) ''job-1'' = Number (Num 1)
   \<and> read_count (counted 1 ''constructor'' (Scheduler_start t0 pool)) ''constructor'' = Number NaN
   \<and> map (\<lambda>n. fst (checkIfRetryExceeded ''job-1'' (counted n ''job-1'' (Scheduler_start t0 pool))))
       [0, 1, 2, 3, 4] = [False, False, False, True, True]
   \<and> map (\<lambda>n. fst (checkIfRetryExceeded ''constructor'' (counted n ''constructor'' (Scheduler_start t0 pool))))
       [0, 1, 2, 3, 4] = [False, False, False, False, True]
   \<and> checkIfRetryExceeded ''__proto__'' s = (False, s)"
proof -
  let ?s = "Scheduler_start t0 pool"
  have a: "read_count ?s ''job-1'' = Undefined" "read_count ?s ''constructor'' = Inherited"
    by (simp_all add: read_count_def start_fields job_1_regular constructor_inherited)
  have b: "read_count (counted (Suc 0) ''job-1'' ?s) ''job-1'' = Number (Num 1)"
    "read_count (counted (Suc 0) ''constructor'' ?s) ''constructor'' = Number NaN"
    by (simp_all add: read_count_def counted_job_1 counted_constructor_1)
  show ?thesis
    by (simp add: a b start_fields exceeded_job_1 exceeded_constructor count_proto)
qed

subsection \<open>C5: delays beyond the bounded timer\<close>




end
